theory Spec2Isabelle
  imports Complex_Main "HOL-Library.Monad_Syntax"
begin

section \<open>JavaScript values as the listing controller sees them\<close>

text \<open>
  The controller \<^verbatim>\<open>api/controllers/post.controller.js\<close> receives parsed JSON (the
  request body) and strings (the query parameters) and hands JavaScript values to the
  storage client. Numbers are idealised: a finite double is the rational it denotes, so
  rounding inside the range of the doubles is not modelled; a literal beyond that range
  reads as an infinity and one too small for it as 0; \<open>NaN\<close> and the two infinities
  are values of their own. Strings are byte strings, so only ASCII letters have a lower case and only
  the ASCII white space characters are trimmed by the number parsers.
\<close>

datatype jsnum = NaN | Fin rat | PInf | NInf

datatype jsval =
    JUndefined
  | JNull
  | JBool bool
  | JNum jsnum
  | JStr string
  | JArr "jsval list"
  | JObj "(string \<times> jsval) list"

text \<open>Truthiness (\<^verbatim>\<open>if (x)\<close>, \<^verbatim>\<open>!x\<close>, \<^verbatim>\<open>x ? a : b\<close>, \<^verbatim>\<open>x || d\<close>).\<close>

fun truthy :: "jsval \<Rightarrow> bool" where
  "truthy JUndefined = False"
| "truthy JNull = False"
| "truthy (JBool b) = b"
| "truthy (JNum n) = (n \<noteq> NaN \<and> n \<noteq> Fin 0)"
| "truthy (JStr s) = (s \<noteq> [])"
| "truthy (JArr xs) = True"
| "truthy (JObj kvs) = True"

definition js_or :: "jsval \<Rightarrow> jsval \<Rightarrow> jsval" where
  "js_or a d = (if truthy a then a else d)"

text \<open>
  Property access \<^verbatim>\<open>v.k\<close>. The controller reads properties only of the body (an object)
  and of a truthy \<^verbatim>\<open>postDetail\<close>; on a truthy value that is not an object the
  property names it reads are all undefined. An object lists each key once.
\<close>

fun prop_of :: "jsval \<Rightarrow> string \<Rightarrow> jsval" where
  "prop_of (JObj kvs) k = (case map_of kvs k of Some v \<Rightarrow> v | None \<Rightarrow> JUndefined)"
| "prop_of v k = JUndefined"

definition is_string :: "jsval \<Rightarrow> bool" where
  "is_string v = (case v of JStr s \<Rightarrow> True | _ \<Rightarrow> False)"

subsection \<open>parseInt and parseFloat\<close>

definition is_ws :: "char \<Rightarrow> bool" where
  "is_ws c = (let n = (of_char c :: nat) in n = 32 \<or> (9 \<le> n \<and> n \<le> 13))"

definition digit_val :: "char \<Rightarrow> nat option" where
  "digit_val c =
     (let n = (of_char c :: nat) in
      if 48 \<le> n \<and> n \<le> 57 then Some (n - 48)
      else if 97 \<le> n \<and> n \<le> 122 then Some (n - 87)
      else if 65 \<le> n \<and> n \<le> 90 then Some (n - 55)
      else None)"

definition radix_digit :: "nat \<Rightarrow> char \<Rightarrow> nat option" where
  "radix_digit r c =
     (case digit_val c of Some d \<Rightarrow> if d < r then Some d else None | None \<Rightarrow> None)"

text \<open>The values of the longest prefix of digits of radix \<open>r\<close>.\<close>

fun digits_prefix :: "nat \<Rightarrow> string \<Rightarrow> nat list" where
  "digits_prefix r [] = []"
| "digits_prefix r (c # cs) =
     (case radix_digit r c of Some d \<Rightarrow> d # digits_prefix r cs | None \<Rightarrow> [])"

definition digits_value :: "int \<Rightarrow> nat list \<Rightarrow> int" where
  "digits_value r ds = foldl (\<lambda>acc d. acc * r + int d) 0 ds"

text \<open>An optional sign: whether it is a minus, and the rest.\<close>

definition strip_sign :: "string \<Rightarrow> bool \<times> string" where
  "strip_sign s =
     (case s of
        [] \<Rightarrow> (False, [])
      | c # r \<Rightarrow>
          if c = CHR ''-'' then (True, r)
          else if c = CHR ''+'' then (False, r)
          else (False, s))"

text \<open>
  The range of the doubles. \<open>overflow_bound\<close> is \<open>2^1024 - 2^970\<close>, half a step
  above the largest double: a magnitude of at least that much rounds to an infinity.
  \<open>underflow_bound\<close> is \<open>2^-1075\<close>, half the smallest double: a magnitude of at
  most that much rounds to 0. Both are written out so that they evaluate at once.
\<close>

definition overflow_bound :: rat where
  "overflow_bound =
     179769313486231580793728971405303415079934132710037826936173778980444968292764750946649017977587207096330286416692887910946555547851940402630657488671505820681908902000708383676273854845817711531764475730270069855571366959622842914819860834936475292719074168444365510704342711559699508093042880177904174497792"

definition underflow_bound :: rat where
  "underflow_bound =
     1 / 404804506614621236704990693437834614099113299528284236713802716054860679135990693783920767402874248990374155728633623822779617474771586953734026799881477019843034848553132722728933815484186432682479535356945490137124014966849385397236206711298319112681620113024717539104666829230461005064372655017292012526615415482186989568"

text \<open>
  The number a parser returns for the exact value \<open>q\<close> of the text it has read:
  inside the range the nearest double is idealised as \<open>q\<close> itself.
\<close>

definition double_of :: "rat \<Rightarrow> jsnum" where
  "double_of q =
     (if overflow_bound \<le> \<bar>q\<bar> then (if q < 0 then NInf else PInf)
      else if \<bar>q\<bar> \<le> underflow_bound then Fin 0
      else Fin q)"

text \<open>
  \<^verbatim>\<open>parseInt(s)\<close> with no radix: leading white space, a sign, an optional
  \<^verbatim>\<open>0x\<close> that selects radix 16, then the longest prefix of digits; \<open>NaN\<close> when
  that prefix is empty.
\<close>

definition parseInt_str :: "string \<Rightarrow> jsnum" where
  "parseInt_str s =
     (let (neg, u) = strip_sign (dropWhile is_ws s);
          hex = (take 2 u = ''0x'' \<or> take 2 u = ''0X'');
          r = (if hex then 16 else 10);
          ds = digits_prefix r (if hex then drop 2 u else u)
      in if ds = [] then NaN
         else double_of (of_int ((if neg then - 1 else 1) * digits_value (int r) ds)))"

text \<open>The exponent part of a decimal literal: 0 when there is none.\<close>

definition exponent_part :: "string \<Rightarrow> int" where
  "exponent_part s =
     (case s of
        [] \<Rightarrow> 0
      | c # r \<Rightarrow>
          if c = CHR ''e'' \<or> c = CHR ''E'' then
            (let (neg, u) = strip_sign r; ds = digits_prefix 10 u
             in if ds = [] then 0
                else (if neg then - 1 else 1) * digits_value 10 ds)
          else 0)"

definition scale10 :: "rat \<Rightarrow> int \<Rightarrow> rat" where
  "scale10 m e = (if 0 \<le> e then m * 10 ^ nat e else m / 10 ^ nat (- e))"

text \<open>
  \<^verbatim>\<open>parseFloat(s)\<close>: leading white space, a sign, then \<^verbatim>\<open>Infinity\<close> or the
  longest prefix that is a decimal literal (digits, an optional fraction, an optional
  exponent); \<open>NaN\<close> when there is no digit.
\<close>

definition parseFloat_str :: "string \<Rightarrow> jsnum" where
  "parseFloat_str s =
     (let (neg, u) = strip_sign (dropWhile is_ws s) in
      if take 8 u = ''Infinity'' then (if neg then NInf else PInf)
      else
        (let ip = digits_prefix 10 u;
             r1 = drop (length ip) u;
             fp = (case r1 of [] \<Rightarrow> []
                   | c # r \<Rightarrow> if c = CHR ''.'' then digits_prefix 10 r else []);
             r2 = (case r1 of [] \<Rightarrow> []
                   | c # r \<Rightarrow> if c = CHR ''.'' then drop (length fp) r else r1)
         in if ip = [] \<and> fp = [] then NaN
            else double_of ((if neg then - 1 else 1) *
                            scale10 (of_int (digits_value 10 (ip @ fp)) / 10 ^ length fp)
                                    (exponent_part r2))))"

text \<open>
  The first significant decimal digit of a positive number: what is left of a number's
  string when it is printed with an exponent and read by \<^verbatim>\<open>parseInt\<close>.
  \<open>lead_int\<close> reads it off an integer part, \<open>lead_frac\<close> off a fraction
  \<open>a / b\<close> below one.
\<close>

function lead_int :: "int \<Rightarrow> int" where
  "lead_int n = (if n < 10 then n else lead_int (n div 10))"
  by pat_completeness auto
termination
  by (relation "measure nat") auto

function lead_frac :: "int \<Rightarrow> int \<Rightarrow> int" where
  "lead_frac a b = (if a \<le> 0 \<or> b \<le> a then a div b else lead_frac (10 * a) b)"
  by pat_completeness auto
termination
  by (relation "measure (\<lambda>(a, b). nat (b - a))") auto

text \<open>
  \<^verbatim>\<open>parseInt\<close> of a number goes through the number's string: the integer part
  for a magnitude from \<open>1e-6\<close> up to \<open>1e21\<close>, the first significant digit where the
  string has an exponent, \<open>NaN\<close> for \<open>NaN\<close> and the infinities.
\<close>

definition parseInt_num :: "jsnum \<Rightarrow> jsnum" where
  "parseInt_num x =
     (case x of
        Fin q \<Rightarrow>
          (let (a, b) = quotient_of \<bar>q\<bar>;
               d = (if 10 ^ 21 \<le> \<bar>q\<bar> then lead_int (a div b)
                    else if \<bar>q\<bar> < 1 / 10 ^ 6 then lead_frac a b
                    else a div b)
           in Fin (of_int (if q < 0 then - d else d)))
      | _ \<Rightarrow> NaN)"

text \<open>
  On any other value the parsers read the value's string. An array prints its elements
  separated by commas, so only its first element can contribute; \<^verbatim>\<open>true\<close>,
  \<^verbatim>\<open>null\<close>, \<^verbatim>\<open>undefined\<close> and \<^verbatim>\<open>[object Object]\<close> hold no digit.
\<close>

fun parseInt :: "jsval \<Rightarrow> jsnum" where
  "parseInt (JStr s) = parseInt_str s"
| "parseInt (JNum x) = parseInt_num x"
| "parseInt (JArr (e # es)) = parseInt e"
| "parseInt v = NaN"

fun parseFloat :: "jsval \<Rightarrow> jsnum" where
  "parseFloat (JStr s) = parseFloat_str s"
| "parseFloat (JNum x) = x"
| "parseFloat (JArr (e # es)) = parseFloat e"
| "parseFloat v = NaN"

section \<open>The persisted entities\<close>

text \<open>
  The five collections of \<^verbatim>\<open>api/prisma/schema.prisma\<close>. An optional field
  (\<^verbatim>\<open>String?\<close>) is an \<open>option\<close>; \<^verbatim>\<open>Float\<close> is \<open>rat\<close>, \<^verbatim>\<open>Int\<close> is
  \<open>int\<close>, \<^verbatim>\<open>DateTime\<close> is a number of milliseconds. Relations are by identifier:
  nothing in the store enforces that a referenced record exists.
\<close>

type_synonym objectid = string
type_synonym datetime = nat

record user =
  user_id :: objectid
  username :: string
  email :: string
  password :: string
  avatar :: "string option"
  fullName :: "string option"
  user_createdAt :: datetime
  user_updatedAt :: datetime

record post =
  post_id :: objectid
  title :: string
  price :: rat
  images :: "string list"
  address :: "string option"
  city :: string
  bedroom :: "int option"
  bathroom :: "rat option"
  latitude :: "string option"
  longitude :: "string option"
  ptype :: string
  property :: string
  createdAt :: datetime
  updatedAt :: datetime
  userId :: objectid

record postDetail =
  detail_id :: objectid
  pd_desc :: "string option"
  pd_utilities :: "string option"
  pd_pet :: "string option"
  pd_income :: "string option"
  pd_size :: "int option"
  pd_school :: "int option"
  pd_bus :: "int option"
  pd_restaurant :: "int option"
  postId :: objectid

record conversation =
  conv_id :: objectid
  user1Id :: objectid
  user2Id :: objectid
  propertyId :: "objectid option"
  conv_createdAt :: datetime
  conv_updatedAt :: datetime
  user1Unread :: int
  user2Unread :: int
  lastMessage :: "string option"

record message =
  msg_id :: objectid
  content :: string
  senderId :: objectid
  conversationId :: objectid
  msg_createdAt :: datetime

record db =
  users :: "user list"
  posts :: "post list"
  postDetails :: "postDetail list"
  conversations :: "conversation list"
  messages :: "message list"

definition find_post :: "db \<Rightarrow> objectid \<Rightarrow> post option" where
  "find_post d i = find (\<lambda>p. post_id p = i) (posts d)"

definition find_user :: "db \<Rightarrow> objectid \<Rightarrow> user option" where
  "find_user d i = find (\<lambda>u. user_id u = i) (users d)"

definition find_detail :: "db \<Rightarrow> objectid \<Rightarrow> postDetail option" where
  "find_detail d i = find (\<lambda>x. postId x = i) (postDetails d)"

section \<open>The storage client\<close>

text \<open>
  What the controller asks of the storage client (\<^verbatim>\<open>prisma.post.findMany\<close>,
  \<^verbatim>\<open>create\<close>, \<^verbatim>\<open>findUnique\<close>, \<^verbatim>\<open>update\<close>, \<^verbatim>\<open>delete\<close>,
  \<^verbatim>\<open>prisma.postDetail.upsert\<close>) is modelled on the \<open>db\<close> record. A call fails
  with an \<open>error\<close> and then changes nothing. It fails
  \<^item> with \<open>StorageFault\<close> whenever the environment says so (an unreachable backend, a
    driver error): \<open>faults env k\<close> tells whether the \<open>k\<close>-th storage call of the
    request faults;
  \<^item> with \<open>ValidationError\<close> when a supplied value does not have the type the schema
    gives the field (\<open>NaN\<close> and the infinities are values of no schema type; an
    \<^verbatim>\<open>Int\<close> is any integer, its range is not modelled);
  \<^item> with \<open>RecordNotFound\<close> when \<^verbatim>\<open>update\<close> or \<^verbatim>\<open>delete\<close> finds no record.
  \<open>TypeError\<close> is the controller's own: a property read of \<^verbatim>\<open>null\<close>.
\<close>

datatype error = StorageFault | ValidationError | RecordNotFound | TypeError

record env =
  faults :: "nat \<Rightarrow> bool"
  now :: datetime
  newId :: "nat \<Rightarrow> objectid"

subsection \<open>Schema types of supplied values\<close>

definition as_string :: "jsval \<Rightarrow> string option" where
  "as_string v = (case v of JStr s \<Rightarrow> Some s | _ \<Rightarrow> None)"

definition as_float :: "jsval \<Rightarrow> rat option" where
  "as_float v = (case v of JNum (Fin q) \<Rightarrow> Some q | _ \<Rightarrow> None)"

definition as_int :: "jsval \<Rightarrow> int option" where
  "as_int v =
     (case v of
        JNum (Fin q) \<Rightarrow> if of_int \<lfloor>q\<rfloor> = q then Some \<lfloor>q\<rfloor> else None
      | _ \<Rightarrow> None)"

fun as_strings :: "jsval list \<Rightarrow> string list option" where
  "as_strings [] = Some []"
| "as_strings (v # vs) =
     (case as_string v of
        None \<Rightarrow> None
      | Some s \<Rightarrow> (case as_strings vs of None \<Rightarrow> None | Some ss \<Rightarrow> Some (s # ss)))"

definition as_string_list :: "jsval \<Rightarrow> string list option" where
  "as_string_list v = (case v of JArr vs \<Rightarrow> as_strings vs | _ \<Rightarrow> None)"

text \<open>
  A value supplied for a required field (\<open>required\<close>) and for an optional one
  (\<open>optional\<close>), given what the field holds when nothing is supplied
  (\<^verbatim>\<open>undefined\<close>): the stored value on an update, the schema's default on a
  create. \<^verbatim>\<open>null\<close> clears an optional field and is refused for a required one.
\<close>

definition required :: "(jsval \<Rightarrow> 'a option) \<Rightarrow> jsval \<Rightarrow> 'a option \<Rightarrow> 'a option" where
  "required conv v dflt = (if v = JUndefined then dflt else conv v)"

definition optional :: "(jsval \<Rightarrow> 'a option) \<Rightarrow> jsval \<Rightarrow> 'a option \<Rightarrow> 'a option option" where
  "optional conv v old =
     (if v = JUndefined then Some old
      else if v = JNull then Some None
      else (case conv v of None \<Rightarrow> None | Some x \<Rightarrow> Some (Some x)))"

subsection \<open>The filter of a list request\<close>

text \<open>
  The \<^verbatim>\<open>where\<close> object the controller builds (lines 10 to 37): a field is
  \<open>None\<close> when the object has no such key.
\<close>

record price_range =
  gte :: "jsnum option"
  lte :: "jsnum option"

record where_clause =
  w_city :: "string option"
  w_type :: "string option"
  w_property :: "string option"
  w_bedroom :: "jsnum option"
  w_price :: "price_range option"

definition to_lower :: "char \<Rightarrow> char" where
  "to_lower c =
     (let n = (of_char c :: nat) in if 65 \<le> n \<and> n \<le> 90 then char_of (n + 32) else c)"

fun starts_with :: "string \<Rightarrow> string \<Rightarrow> bool" where
  "starts_with [] s = True"
| "starts_with (c # cs) [] = False"
| "starts_with (c # cs) (d # ds) = (c = d \<and> starts_with cs ds)"

fun contains :: "string \<Rightarrow> string \<Rightarrow> bool" where
  "contains v [] = (v = [])"
| "contains v (d # ds) = (starts_with v (d # ds) \<or> contains v ds)"

text \<open>\<^verbatim>\<open>{ contains: v, mode: 'insensitive' }\<close>\<close>

definition contains_insensitive :: "string \<Rightarrow> string \<Rightarrow> bool" where
  "contains_insensitive v s = contains (map to_lower v) (map to_lower s)"

text \<open>
  The spec's words for the city filter, "contains the given substring
  case-insensitively": the lower-cased city has the lower-cased value somewhere inside.
\<close>

definition ci_substring :: "string \<Rightarrow> string \<Rightarrow> bool" where
  "ci_substring v s = (\<exists>pre suf. map to_lower s = pre @ map to_lower v @ suf)"

definition num_le :: "jsnum \<Rightarrow> jsnum \<Rightarrow> bool" where
  "num_le x y = (case (x, y) of (Fin a, Fin b) \<Rightarrow> a \<le> b | _ \<Rightarrow> False)"

definition opt_holds :: "'a option \<Rightarrow> ('a \<Rightarrow> bool) \<Rightarrow> bool" where
  "opt_holds c P = (case c of None \<Rightarrow> True | Some x \<Rightarrow> P x)"

text \<open>
  Whether a Listing satisfies the filter. \<^verbatim>\<open>gte\<close> and \<^verbatim>\<open>lte\<close> hold of
  no \<^verbatim>\<open>null\<close> field.
\<close>

definition matches :: "where_clause \<Rightarrow> post \<Rightarrow> bool" where
  "matches w p =
     (opt_holds (w_city w) (\<lambda>v. contains_insensitive v (city p)) \<and>
      opt_holds (w_type w) (\<lambda>v. ptype p = v) \<and>
      opt_holds (w_property w) (\<lambda>v. property p = v) \<and>
      opt_holds (w_bedroom w)
        (\<lambda>n. case bedroom p of None \<Rightarrow> False | Some b \<Rightarrow> num_le n (Fin (of_int b))) \<and>
      opt_holds (w_price w)
        (\<lambda>r. opt_holds (gte r) (\<lambda>n. num_le n (Fin (price p))) \<and>
             opt_holds (lte r) (\<lambda>n. num_le (Fin (price p)) n)))"

definition is_fin :: "jsnum \<Rightarrow> bool" where
  "is_fin x = (case x of Fin q \<Rightarrow> True | _ \<Rightarrow> False)"

text \<open>The filter's numbers are numbers the storage client accepts.\<close>

definition valid_where :: "where_clause \<Rightarrow> bool" where
  "valid_where w =
     (opt_holds (w_bedroom w) is_fin \<and>
      opt_holds (w_price w) (\<lambda>r. opt_holds (gte r) is_fin \<and> opt_holds (lte r) is_fin))"

type_synonym query = "string \<Rightarrow> string option"

text \<open>
  The query parameters are a mapping from keys to strings, as the spec has them.
  \<^verbatim>\<open>query.k\<close> as a condition: a string is truthy unless empty, an absent key is
  \<^verbatim>\<open>undefined\<close>.
\<close>

definition given :: "query \<Rightarrow> string \<Rightarrow> bool" where
  "given q k = (case q k of None \<Rightarrow> False | Some v \<Rightarrow> v \<noteq> [])"

definition param :: "query \<Rightarrow> string \<Rightarrow> string" where
  "param q k = (case q k of None \<Rightarrow> [] | Some v \<Rightarrow> v)"

definition buildWhere :: "query \<Rightarrow> where_clause" where
  "buildWhere q =
     \<lparr> w_city = (if given q ''city'' then Some (param q ''city'') else None),
       w_type = (if given q ''type'' then Some (param q ''type'') else None),
       w_property = (if given q ''property'' then Some (param q ''property'') else None),
       w_bedroom =
         (if given q ''bedroom'' then Some (parseInt_str (param q ''bedroom'')) else None),
       w_price =
         (if given q ''minPrice'' \<or> given q ''maxPrice'' then
            Some \<lparr> gte = (if given q ''minPrice''
                          then Some (parseInt_str (param q ''minPrice'')) else None),
                   lte = (if given q ''maxPrice''
                          then Some (parseInt_str (param q ''maxPrice'')) else None) \<rparr>
          else None) \<rparr>"

subsection \<open>findMany\<close>

text \<open>
  The restricted projection of the owning Account
  (\<^verbatim>\<open>user: { select: { id, username, email, avatar, createdAt } }\<close>).
\<close>

record user_view =
  uv_id :: objectid
  uv_username :: string
  uv_email :: string
  uv_avatar :: "string option"
  uv_createdAt :: datetime

definition select_user :: "user \<Rightarrow> user_view" where
  "select_user u =
     \<lparr> uv_id = user_id u, uv_username = username u, uv_email = email u,
       uv_avatar = avatar u, uv_createdAt = user_createdAt u \<rparr>"

definition joined_user :: "db \<Rightarrow> post \<Rightarrow> user_view option" where
  "joined_user d p = map_option select_user (find_user d (userId p))"

text \<open>
  A row of a list query: the thirteen selected fields (neither coordinate is one of
  them) and, in the full query, the joined owner. \<open>r_user\<close> is \<open>None\<close> both
  when the join finds no Account and when the query does not join.
\<close>

record post_row =
  r_id :: objectid
  r_title :: string
  r_price :: rat
  r_images :: "string list"
  r_address :: "string option"
  r_city :: string
  r_bedroom :: "int option"
  r_bathroom :: "rat option"
  r_type :: string
  r_property :: string
  r_createdAt :: datetime
  r_updatedAt :: datetime
  r_userId :: objectid
  r_user :: "user_view option"

definition select_row :: "post \<Rightarrow> user_view option \<Rightarrow> post_row" where
  "select_row p u =
     \<lparr> r_id = post_id p, r_title = title p, r_price = price p, r_images = images p,
       r_address = address p, r_city = city p, r_bedroom = bedroom p,
       r_bathroom = bathroom p, r_type = ptype p, r_property = property p,
       r_createdAt = createdAt p, r_updatedAt = updatedAt p, r_userId = userId p,
       r_user = u \<rparr>"

text \<open>
  \<^verbatim>\<open>orderBy: { createdAt: 'desc' }\<close>. The source does not fix the order of
  Listings created at the same instant; the model lists the later record of the
  collection first.
\<close>

definition newest_first :: "post list \<Rightarrow> post list" where
  "newest_first ps = rev (sort_key createdAt ps)"

definition rows :: "db \<Rightarrow> bool \<Rightarrow> post list \<Rightarrow> post_row list" where
  "rows d join ps =
     map (\<lambda>p. select_row p (if join then joined_user d p else None)) (newest_first ps)"

text \<open>
  \<^verbatim>\<open>prisma.post.findMany\<close> with the filter \<open>w\<close> (\<open>None\<close>: the call passes no
  \<^verbatim>\<open>where\<close>) and with or without the owner join.
\<close>

definition findMany :: "env \<Rightarrow> nat \<Rightarrow> db \<Rightarrow> where_clause option \<Rightarrow> bool \<Rightarrow> error + post_row list" where
  "findMany e k d w join =
     (if faults e k then Inl StorageFault
      else case w of
             None \<Rightarrow> Inr (rows d join (posts d))
           | Some c \<Rightarrow>
               if valid_where c then Inr (rows d join (filter (matches c) (posts d)))
               else Inl ValidationError)"

subsection \<open>create\<close>

record detail_data =
  dd_desc :: jsval
  dd_utilities :: jsval
  dd_pet :: jsval
  dd_income :: jsval
  dd_size :: jsval
  dd_school :: jsval
  dd_bus :: jsval
  dd_restaurant :: jsval

text \<open>
  The \<^verbatim>\<open>data\<close> object of \<^verbatim>\<open>prisma.post.create\<close> (lines 205 to 231 and again 271
  to 295): it has no latitude and no longitude key.
\<close>

record post_create =
  pc_title :: jsval
  pc_price :: jsval
  pc_images :: jsval
  pc_address :: jsval
  pc_city :: jsval
  pc_bedroom :: jsval
  pc_bathroom :: jsval
  pc_type :: jsval
  pc_property :: jsval
  pc_userId :: objectid
  pc_postDetail :: "detail_data option"

text \<open>The supplied Detail values written over a Detail record; \<open>None\<close> on a type error.\<close>

definition write_detail :: "detail_data \<Rightarrow> postDetail \<Rightarrow> postDetail option" where
  "write_detail x old = do {
     de \<leftarrow> optional as_string (dd_desc x) (pd_desc old);
     ut \<leftarrow> optional as_string (dd_utilities x) (pd_utilities old);
     pe \<leftarrow> optional as_string (dd_pet x) (pd_pet old);
     inc \<leftarrow> optional as_string (dd_income x) (pd_income old);
     sz \<leftarrow> optional as_int (dd_size x) (pd_size old);
     sc \<leftarrow> optional as_int (dd_school x) (pd_school old);
     bu \<leftarrow> optional as_int (dd_bus x) (pd_bus old);
     re \<leftarrow> optional as_int (dd_restaurant x) (pd_restaurant old);
     Some (old\<lparr> pd_desc := de, pd_utilities := ut, pd_pet := pe, pd_income := inc,
                pd_size := sz, pd_school := sc, pd_bus := bu, pd_restaurant := re \<rparr>)
   }"

definition blank_detail :: "objectid \<Rightarrow> objectid \<Rightarrow> postDetail" where
  "blank_detail i pid =
     \<lparr> detail_id = i, pd_desc = None, pd_utilities = None, pd_pet = None,
       pd_income = None, pd_size = None, pd_school = None, pd_bus = None,
       pd_restaurant = None, postId = pid \<rparr>"

text \<open>
  The Listing a create call stores: the schema's defaults where nothing is supplied,
  both coordinates empty since the data cannot carry them.
\<close>

definition new_post :: "env \<Rightarrow> nat \<Rightarrow> post_create \<Rightarrow> post option" where
  "new_post e k x = do {
     t \<leftarrow> required as_string (pc_title x) None;
     pr \<leftarrow> required as_float (pc_price x) None;
     im \<leftarrow> required as_string_list (pc_images x) (Some []);
     ad \<leftarrow> optional as_string (pc_address x) None;
     c \<leftarrow> required as_string (pc_city x) None;
     bd \<leftarrow> optional as_int (pc_bedroom x) None;
     bt \<leftarrow> optional as_float (pc_bathroom x) None;
     ty \<leftarrow> required as_string (pc_type x) (Some ''rent'');
     pp \<leftarrow> required as_string (pc_property x) (Some ''apartment'');
     Some \<lparr> post_id = newId e (2 * k), title = t, price = pr, images = im,
            address = ad, city = c, bedroom = bd, bathroom = bt,
            latitude = None, longitude = None, ptype = ty, property = pp,
            createdAt = now e, updatedAt = now e, userId = pc_userId x \<rparr>
   }"

text \<open>\<^verbatim>\<open>prisma.post.create\<close> with the nested \<^verbatim>\<open>postDetail: { create: ... }\<close>.\<close>

definition post_create_call :: "env \<Rightarrow> nat \<Rightarrow> db \<Rightarrow> post_create \<Rightarrow> error + (db \<times> post)" where
  "post_create_call e k d x =
     (if faults e k then Inl StorageFault
      else case new_post e k x of
             None \<Rightarrow> Inl ValidationError
           | Some p \<Rightarrow>
               (case pc_postDetail x of
                  None \<Rightarrow> Inr (d\<lparr> posts := posts d @ [p] \<rparr>, p)
                | Some dd \<Rightarrow>
                    (case write_detail dd (blank_detail (newId e (2 * k + 1)) (post_id p)) of
                       None \<Rightarrow> Inl ValidationError
                     | Some det \<Rightarrow>
                         Inr (d\<lparr> posts := posts d @ [p],
                                 postDetails := postDetails d @ [det] \<rparr>, p))))"

subsection \<open>findUnique, upsert, update, delete\<close>

definition findUnique :: "env \<Rightarrow> nat \<Rightarrow> db \<Rightarrow> objectid \<Rightarrow> error + post option" where
  "findUnique e k d i = (if faults e k then Inl StorageFault else Inr (find_post d i))"

text \<open>
  \<^verbatim>\<open>prisma.postDetail.upsert({ where: { postId: id }, update, create })\<close>. The
  Detail of a Listing is unique (\<^verbatim>\<open>postId String @unique\<close>).
\<close>

definition upsert :: "env \<Rightarrow> nat \<Rightarrow> db \<Rightarrow> objectid \<Rightarrow> detail_data \<Rightarrow> detail_data \<Rightarrow> error + db" where
  "upsert e k d i upd cre =
     (if faults e k then Inl StorageFault
      else case find_detail d i of
             Some old \<Rightarrow>
               (case write_detail upd old of
                  None \<Rightarrow> Inl ValidationError
                | Some new \<Rightarrow>
                    Inr (d\<lparr> postDetails :=
                              map (\<lambda>x. if postId x = i then new else x) (postDetails d) \<rparr>))
           | None \<Rightarrow>
               (case write_detail cre (blank_detail (newId e (2 * k + 1)) i) of
                  None \<Rightarrow> Inl ValidationError
                | Some det \<Rightarrow> Inr (d\<lparr> postDetails := postDetails d @ [det] \<rparr>)))"

text \<open>The \<^verbatim>\<open>data\<close> object of \<^verbatim>\<open>prisma.post.update\<close> (lines 438 to 450).\<close>

record post_update =
  pu_title :: jsval
  pu_price :: jsval
  pu_images :: jsval
  pu_address :: jsval
  pu_city :: jsval
  pu_bedroom :: jsval
  pu_bathroom :: jsval
  pu_latitude :: jsval
  pu_longitude :: jsval
  pu_type :: jsval
  pu_property :: jsval

definition write_post :: "env \<Rightarrow> post_update \<Rightarrow> post \<Rightarrow> post option" where
  "write_post e x p = do {
     t \<leftarrow> required as_string (pu_title x) (Some (title p));
     pr \<leftarrow> required as_float (pu_price x) (Some (price p));
     im \<leftarrow> required as_string_list (pu_images x) (Some (images p));
     ad \<leftarrow> optional as_string (pu_address x) (address p);
     c \<leftarrow> required as_string (pu_city x) (Some (city p));
     bd \<leftarrow> optional as_int (pu_bedroom x) (bedroom p);
     bt \<leftarrow> optional as_float (pu_bathroom x) (bathroom p);
     la \<leftarrow> optional as_string (pu_latitude x) (latitude p);
     lo \<leftarrow> optional as_string (pu_longitude x) (longitude p);
     ty \<leftarrow> required as_string (pu_type x) (Some (ptype p));
     pp \<leftarrow> required as_string (pu_property x) (Some (property p));
     Some (p\<lparr> title := t, price := pr, images := im, address := ad, city := c,
              bedroom := bd, bathroom := bt, latitude := la, longitude := lo,
              ptype := ty, property := pp, updatedAt := now e \<rparr>)
   }"

text \<open>\<^verbatim>\<open>prisma.post.update({ where: { id }, data })\<close>; identifiers are unique.\<close>

definition update :: "env \<Rightarrow> nat \<Rightarrow> db \<Rightarrow> objectid \<Rightarrow> post_update \<Rightarrow> error + (db \<times> post)" where
  "update e k d i x =
     (if faults e k then Inl StorageFault
      else case find_post d i of
             None \<Rightarrow> Inl RecordNotFound
           | Some p \<Rightarrow>
               (case write_post e x p of
                  None \<Rightarrow> Inl ValidationError
                | Some p' \<Rightarrow>
                    Inr (d\<lparr> posts := map (\<lambda>y. if post_id y = i then p' else y) (posts d) \<rparr>,
                         p')))"

text \<open>
  Modelled from the spec: what the storage client does, when a Listing is deleted, to the
  Conversations that refer to it. The schema declares no referential action on a
  Conversation's \<^verbatim>\<open>property\<close>, and the storage client, which would apply its own
  default there, is not part of the repository. The spec: "Conversations referencing a
  deleted Listing retain a dangling optional reference", "not nulled, not cascaded".
\<close>

definition on_delete_conversations :: "objectid \<Rightarrow> conversation list \<Rightarrow> conversation list" where
  "on_delete_conversations i cs = cs"

text \<open>
  \<^verbatim>\<open>prisma.post.delete({ where: { id } })\<close>. The schema declares one referential
  action on a relation to a Listing: \<^verbatim>\<open>onDelete: Cascade\<close> on the Detail's
  (\<^verbatim>\<open>post Post @relation(fields: [postId], references: [id], onDelete: Cascade)\<close>).
\<close>

definition delete :: "env \<Rightarrow> nat \<Rightarrow> db \<Rightarrow> objectid \<Rightarrow> error + db" where
  "delete e k d i =
     (if faults e k then Inl StorageFault
      else case find_post d i of
             None \<Rightarrow> Inl RecordNotFound
           | Some p \<Rightarrow>
               Inr (d\<lparr> posts := filter (\<lambda>y. post_id y \<noteq> i) (posts d),
                       postDetails := filter (\<lambda>x. postId x \<noteq> i) (postDetails d),
                       conversations := on_delete_conversations i (conversations d) \<rparr>))"

text \<open>The storage calls of a request, in the order the controller makes them.\<close>

datatype call =
    FindMany "where_clause option" bool
  | Create post_create
  | FindUnique objectid
  | Upsert objectid detail_data detail_data
  | Update objectid post_update
  | Delete objectid

section \<open>Response shaping\<close>

record ownerInfo =
  oi_id :: string
  oi_username :: string
  oi_email :: string
  oi_fullName :: string
  oi_avatar :: "string option"
  verified :: bool
  showContactInfo :: bool
  memberSince :: datetime
  location :: string
  userType :: string

text \<open>The projection of a joined Account; \<^verbatim>\<open>fullName\<close> is the handle.\<close>

definition owner_info :: "user_view \<Rightarrow> string \<Rightarrow> ownerInfo" where
  "owner_info u loc =
     \<lparr> oi_id = uv_id u, oi_username = uv_username u, oi_email = uv_email u,
       oi_fullName = uv_username u, oi_avatar = uv_avatar u, verified = False,
       showContactInfo = True, memberSince = uv_createdAt u, location = loc,
       userType = ''standard'' \<rparr>"

text \<open>The sentinel; \<open>t\<close> is the time of the request (\<^verbatim>\<open>new Date()\<close>).\<close>

definition unknown_owner :: "datetime \<Rightarrow> string \<Rightarrow> ownerInfo" where
  "unknown_owner t loc =
     \<lparr> oi_id = ''unknown'', oi_username = ''Unknown User'', oi_email = [],
       oi_fullName = ''Unknown'', oi_avatar = Some [], verified = False,
       showContactInfo = False, memberSince = t, location = loc,
       userType = ''standard'' \<rparr>"

text \<open>\<^verbatim>\<open>s || d\<close> on a string.\<close>

definition str_or :: "string \<Rightarrow> string \<Rightarrow> string" where
  "str_or s d = (if s = [] then d else s)"

text \<open>
  An element of a list response: the row, \<^verbatim>\<open>latitude: null\<close>,
  \<^verbatim>\<open>longitude: null\<close> and the owner info (\<open>None\<close> is \<^verbatim>\<open>null\<close>).
\<close>

record listing =
  l_row :: post_row
  l_latitude :: "string option"
  l_longitude :: "string option"
  l_ownerInfo :: ownerInfo

text \<open>Lines 76 to 107: the full path.\<close>

definition transform :: "datetime \<Rightarrow> post_row \<Rightarrow> listing" where
  "transform t r =
     \<lparr> l_row = r, l_latitude = None, l_longitude = None,
       l_ownerInfo =
         (case r_user r of
            Some u \<Rightarrow> owner_info u (str_or (r_city r) ''Unknown City'')
          | None \<Rightarrow> unknown_owner t (str_or (r_city r) ''Unknown City'')) \<rparr>"

text \<open>Lines 136 to 152: the fallback path.\<close>

definition simple :: "datetime \<Rightarrow> post_row \<Rightarrow> listing" where
  "simple t r =
     \<lparr> l_row = r, l_latitude = None, l_longitude = None,
       l_ownerInfo = unknown_owner t (str_or (r_city r) ''Unknown'') \<rparr>"

text \<open>
  What create, read-one and update return: the stored Listing with
  \<^verbatim>\<open>include: { user: { select: ... }, postDetail: true }\<close>, and the owner info.
\<close>

record included =
  i_post :: post
  i_user :: "user_view option"
  i_postDetail :: "postDetail option"

definition with_include :: "db \<Rightarrow> post \<Rightarrow> included" where
  "with_include d p =
     \<lparr> i_post = p, i_user = joined_user d p, i_postDetail = find_detail d (post_id p) \<rparr>"

record shaped =
  s_record :: included
  s_ownerInfo :: ownerInfo

text \<open>
  These three read \<^verbatim>\<open>post.user.id\<close> with no test of \<^verbatim>\<open>post.user\<close>: a
  \<open>TypeError\<close> when the join found no Account.
\<close>

definition shape :: "included \<Rightarrow> error + shaped" where
  "shape r =
     (case i_user r of
        None \<Rightarrow> Inl TypeError
      | Some u \<Rightarrow> Inr \<lparr> s_record = r, s_ownerInfo = owner_info u (city (i_post r)) \<rparr>)"

section \<open>The controller\<close>

datatype body =
    Message string
  | Failure string error
  | Listings "listing list"
  | Shaped shaped

text \<open>
  The outcome of a request: the response, the store after it, and the storage calls
  it made.
\<close>

record outcome =
  status :: nat
  body :: body
  store :: db
  calls :: "call list"

subsection \<open>getPosts\<close>

definition getPosts :: "env \<Rightarrow> db \<Rightarrow> query \<Rightarrow> outcome" where
  "getPosts e d q =
     (let w = buildWhere q in
      case findMany e 0 d (Some w) True of
        Inr ps \<Rightarrow>
          \<lparr> status = 200, body = Listings (map (transform (now e)) ps), store = d,
            calls = [FindMany (Some w) True] \<rparr>
      | Inl err \<Rightarrow>
          (case findMany e 1 d None False of
             Inr basic \<Rightarrow>
               \<lparr> status = 200, body = Listings (map (simple (now e)) basic), store = d,
                 calls = [FindMany (Some w) True, FindMany None False] \<rparr>
           | Inl err2 \<Rightarrow>
               \<lparr> status = 200, body = Listings [], store = d,
                 calls = [FindMany (Some w) True, FindMany None False] \<rparr>))"

subsection \<open>addPost\<close>

text \<open>\<^verbatim>\<open>typeof v === 'string' ? parse(v) : v\<close>\<close>

definition numeric :: "(jsval \<Rightarrow> jsnum) \<Rightarrow> jsval \<Rightarrow> jsval" where
  "numeric parse v = (if is_string v then JNum (parse v) else v)"

text \<open>\<^verbatim>\<open>v ? parseInt(v) : null\<close>\<close>

definition metric :: "jsval \<Rightarrow> jsval" where
  "metric v = (if truthy v then JNum (parseInt v) else JNull)"

text \<open>
  The \<^verbatim>\<open>create\<close> object of a Detail, the same in \<^verbatim>\<open>addPost\<close> (lines 220 to
  229) and in the upsert of \<^verbatim>\<open>updatePost\<close> (lines 421 to 431).
\<close>

definition create_detail :: "jsval \<Rightarrow> detail_data" where
  "create_detail pd =
     \<lparr> dd_desc = js_or (prop_of pd ''desc'') (JStr []),
       dd_utilities = js_or (prop_of pd ''utilities'') (JStr []),
       dd_pet = js_or (prop_of pd ''pet'') (JStr []),
       dd_income = js_or (prop_of pd ''income'') (JStr []),
       dd_size = metric (prop_of pd ''size''),
       dd_school = metric (prop_of pd ''school''),
       dd_bus = metric (prop_of pd ''bus''),
       dd_restaurant = metric (prop_of pd ''restaurant'') \<rparr>"

text \<open>
  The data of both create calls. The coordinates the controller parses from the body
  (lines 183 to 200) are not part of it: the two keys are commented out in the first
  call and absent from the second.
\<close>

definition create_data :: "objectid \<Rightarrow> jsval \<Rightarrow> post_create" where
  "create_data tokenUserId b =
     \<lparr> pc_title = prop_of b ''title'',
       pc_price = numeric parseFloat (prop_of b ''price''),
       pc_images = js_or (prop_of b ''images'') (JArr []),
       pc_address = js_or (prop_of b ''address'') (JStr []),
       pc_city = prop_of b ''city'',
       pc_bedroom =
         (if truthy (prop_of b ''bedroom'') then numeric parseInt (prop_of b ''bedroom'')
          else JNum (Fin 0)),
       pc_bathroom =
         (if truthy (prop_of b ''bathroom'') then numeric parseFloat (prop_of b ''bathroom'')
          else JNum (Fin 0)),
       pc_type = js_or (prop_of b ''type'') (JStr ''rent''),
       pc_property = js_or (prop_of b ''property'') (JStr ''apartment''),
       pc_userId = tokenUserId,
       pc_postDetail =
         (if truthy (prop_of b ''postDetail'')
          then Some (create_detail (prop_of b ''postDetail'')) else None) \<rparr>"

text \<open>
  One \<^verbatim>\<open>try\<close> block of \<^verbatim>\<open>addPost\<close>: the create call, then the shaping of its
  result. What the call stored stays stored when the shaping throws.
\<close>

definition create_attempt :: "env \<Rightarrow> nat \<Rightarrow> db \<Rightarrow> post_create \<Rightarrow> db \<times> (error + shaped)" where
  "create_attempt e k d x =
     (case post_create_call e k d x of
        Inl err \<Rightarrow> (d, Inl err)
      | Inr (d', p) \<Rightarrow> (d', shape (with_include d' p)))"

definition addPost :: "env \<Rightarrow> db \<Rightarrow> objectid \<Rightarrow> (string \<times> jsval) list \<Rightarrow> outcome" where
  "addPost e d tokenUserId req_body =
     (let b = JObj req_body in
      if \<not> truthy (prop_of b ''title'') \<or> \<not> truthy (prop_of b ''price'')
         \<or> \<not> truthy (prop_of b ''city'')
      then \<lparr> status = 400, body = Message ''Missing required fields'', store = d,
             calls = [] \<rparr>
      else
        (let x = create_data tokenUserId b in
         case create_attempt e 0 d x of
           (d1, Inr s) \<Rightarrow>
             \<lparr> status = 201, body = Shaped s, store = d1, calls = [Create x] \<rparr>
         | (d1, Inl innerErr) \<Rightarrow>
             (case create_attempt e 1 d1 x of
                (d2, Inr s) \<Rightarrow>
                  \<lparr> status = 201, body = Shaped s, store = d2,
                    calls = [Create x, Create x] \<rparr>
              | (d2, Inl err) \<Rightarrow>
                  \<lparr> status = 500, body = Failure ''Failed to create post in database'' err,
                    store = d2, calls = [Create x, Create x] \<rparr>)))"

subsection \<open>getPost\<close>

definition getPost :: "env \<Rightarrow> db \<Rightarrow> objectid \<Rightarrow> outcome" where
  "getPost e d i =
     (case findUnique e 0 d i of
        Inl err \<Rightarrow>
          \<lparr> status = 500, body = Message ''Failed to get post'', store = d,
            calls = [FindUnique i] \<rparr>
      | Inr None \<Rightarrow>
          \<lparr> status = 404, body = Message ''Post not found'', store = d,
            calls = [FindUnique i] \<rparr>
      | Inr (Some p) \<Rightarrow>
          (case shape (with_include d p) of
             Inl err \<Rightarrow>
               \<lparr> status = 500, body = Message ''Failed to get post'', store = d,
                 calls = [FindUnique i] \<rparr>
           | Inr s \<Rightarrow>
               \<lparr> status = 200, body = Shaped s, store = d, calls = [FindUnique i] \<rparr>))"

subsection \<open>updatePost\<close>

text \<open>The \<^verbatim>\<open>update\<close> object of the Detail upsert (lines 411 to 420).\<close>

definition update_detail :: "jsval \<Rightarrow> detail_data" where
  "update_detail pd =
     \<lparr> dd_desc = prop_of pd ''desc'',
       dd_utilities = prop_of pd ''utilities'',
       dd_pet = prop_of pd ''pet'',
       dd_income = prop_of pd ''income'',
       dd_size = metric (prop_of pd ''size''),
       dd_school = metric (prop_of pd ''school''),
       dd_bus = metric (prop_of pd ''bus''),
       dd_restaurant = metric (prop_of pd ''restaurant'') \<rparr>"

text \<open>\<^verbatim>\<open>v ? parse(v) : undefined\<close>\<close>

definition parsed :: "(jsval \<Rightarrow> jsnum) \<Rightarrow> jsval \<Rightarrow> jsval" where
  "parsed parse v = (if truthy v then JNum (parse v) else JUndefined)"

definition update_data :: "jsval \<Rightarrow> post_update" where
  "update_data b =
     \<lparr> pu_title = prop_of b ''title'',
       pu_price = parsed parseInt (prop_of b ''price''),
       pu_images = prop_of b ''images'',
       pu_address = prop_of b ''address'',
       pu_city = prop_of b ''city'',
       pu_bedroom = parsed parseInt (prop_of b ''bedroom''),
       pu_bathroom = parsed parseFloat (prop_of b ''bathroom''),
       pu_latitude = prop_of b ''latitude'',
       pu_longitude = prop_of b ''longitude'',
       pu_type = prop_of b ''type'',
       pu_property = prop_of b ''property'' \<rparr>"

definition failed :: "string \<Rightarrow> db \<Rightarrow> call list \<Rightarrow> outcome" where
  "failed m d cs = \<lparr> status = 500, body = Message m, store = d, calls = cs \<rparr>"

text \<open>
  The update of the main record (lines 435 to 482), the \<open>k\<close>-th storage call of the
  request, after the calls \<open>cs\<close>. The data reads no \<^verbatim>\<open>postDetail\<close>, so the
  \<^verbatim>\<open>delete body.postDetail\<close> before it changes nothing the model looks at.
\<close>

definition update_main :: "env \<Rightarrow> nat \<Rightarrow> db \<Rightarrow> objectid \<Rightarrow> jsval \<Rightarrow> call list \<Rightarrow> outcome" where
  "update_main e k d i b cs =
     (case update e k d i (update_data b) of
        Inl err \<Rightarrow> failed ''Failed to update post'' d (cs @ [Update i (update_data b)])
      | Inr (d', p') \<Rightarrow>
          (case shape (with_include d' p') of
             Inl err \<Rightarrow> failed ''Failed to update post'' d' (cs @ [Update i (update_data b)])
           | Inr s \<Rightarrow>
               \<lparr> status = 200, body = Shaped s, store = d',
                 calls = cs @ [Update i (update_data b)] \<rparr>))"

definition updatePost :: "env \<Rightarrow> db \<Rightarrow> objectid \<Rightarrow> objectid \<Rightarrow> (string \<times> jsval) list \<Rightarrow> outcome" where
  "updatePost e d i tokenUserId req_body =
     (let b = JObj req_body in
      case findUnique e 0 d i of
        Inl err \<Rightarrow> failed ''Failed to update post'' d [FindUnique i]
      | Inr None \<Rightarrow>
          \<lparr> status = 404, body = Message ''Post not found'', store = d,
            calls = [FindUnique i] \<rparr>
      | Inr (Some existingPost) \<Rightarrow>
          if userId existingPost \<noteq> tokenUserId
          then \<lparr> status = 403, body = Message ''Not authorized to update this post'',
                 store = d, calls = [FindUnique i] \<rparr>
          else
            (let pd = prop_of b ''postDetail'' in
             if truthy pd then
               (case upsert e 1 d i (update_detail pd) (create_detail pd) of
                  Inl err \<Rightarrow>
                    failed ''Failed to update post'' d
                      [FindUnique i, Upsert i (update_detail pd) (create_detail pd)]
                | Inr d1 \<Rightarrow>
                    update_main e 2 d1 i b
                      [FindUnique i, Upsert i (update_detail pd) (create_detail pd)])
             else update_main e 1 d i b [FindUnique i]))"

subsection \<open>deletePost\<close>

definition deletePost :: "env \<Rightarrow> db \<Rightarrow> objectid \<Rightarrow> objectid \<Rightarrow> outcome" where
  "deletePost e d i tokenUserId =
     (case findUnique e 0 d i of
        Inl err \<Rightarrow> failed ''Failed to delete post'' d [FindUnique i]
      | Inr None \<Rightarrow>
          \<lparr> status = 404, body = Message ''Post not found'', store = d,
            calls = [FindUnique i] \<rparr>
      | Inr (Some existingPost) \<Rightarrow>
          if userId existingPost \<noteq> tokenUserId
          then \<lparr> status = 403, body = Message ''Not authorized to delete this post'',
                 store = d, calls = [FindUnique i] \<rparr>
          else
            (case delete e 1 d i of
               Inl err \<Rightarrow> failed ''Failed to delete post'' d [FindUnique i, Delete i]
             | Inr d' \<Rightarrow>
                 \<lparr> status = 200, body = Message ''Post deleted'', store = d',
                   calls = [FindUnique i, Delete i] \<rparr>))"

section \<open>Reading a response, and a small store to run requests on\<close>

definition listings_of :: "outcome \<Rightarrow> listing list" where
  "listings_of r = (case body r of Listings ls \<Rightarrow> ls | _ \<Rightarrow> [])"

definition ann :: user where
  "ann = \<lparr> user_id = ''u1'', username = ''ann'', email = ''ann@example.org'',
           password = ''hash'', avatar = None, fullName = Some ''Ann Lee'',
           user_createdAt = 5, user_updatedAt = 5 \<rparr>"

definition flat_a :: post where
  "flat_a = \<lparr> post_id = ''p1'', title = ''Flat A'', price = 1200, images = [],
              address = None, city = ''Berlin'', bedroom = Some 2, bathroom = Some 1,
              latitude = Some ''52.5'', longitude = Some ''13.4'', ptype = ''rent'',
              property = ''apartment'', createdAt = 10, updatedAt = 10,
              userId = ''u1'' \<rparr>"

definition house_b :: post where
  "house_b = \<lparr> post_id = ''p2'', title = ''House B'', price = 900, images = [],
               address = None, city = ''Paris'', bedroom = None, bathroom = None,
               latitude = None, longitude = None, ptype = ''buy'',
               property = ''house'', createdAt = 20, updatedAt = 20,
               userId = ''u9'' \<rparr>"

definition detail_a :: postDetail where
  "detail_a = \<lparr> detail_id = ''d1'', pd_desc = Some ''bright'', pd_utilities = None,
                pd_pet = None, pd_income = None, pd_size = Some 50, pd_school = None,
                pd_bus = None, pd_restaurant = None, postId = ''p1'' \<rparr>"

definition chat :: conversation where
  "chat = \<lparr> conv_id = ''c1'', user1Id = ''u1'', user2Id = ''u2'',
            propertyId = Some ''p1'', conv_createdAt = 30, conv_updatedAt = 30,
            user1Unread = 0, user2Unread = 1, lastMessage = Some ''hello'' \<rparr>"

definition demo_db :: db where
  "demo_db = \<lparr> users = [ann], posts = [flat_a, house_b], postDetails = [detail_a],
               conversations = [chat], messages = [] \<rparr>"

text \<open>A backend that answers, one whose first call faults, and one that is unreachable.\<close>

definition reachable :: env where
  "reachable = \<lparr> faults = (\<lambda>k. False), now = 100, newId = (\<lambda>k. ''n'') \<rparr>"

definition first_call_faults :: env where
  "first_call_faults = \<lparr> faults = (\<lambda>k. k = 0), now = 100, newId = (\<lambda>k. ''n'') \<rparr>"

definition unreachable :: env where
  "unreachable = \<lparr> faults = (\<lambda>k. True), now = 100, newId = (\<lambda>k. ''n'') \<rparr>"


text \<open>
  The create request of the spec's example (a flat in Berlin at 1200), with coordinates
  supplied, and the Listing the store holds for it.
\<close>

definition flat_request :: "(string \<times> jsval) list" where
  "flat_request = [(''title'', JStr ''Flat A''), (''price'', JNum (Fin 1200)),
                   (''city'', JStr ''Berlin''), (''latitude'', JStr ''52.5''),
                   (''longitude'', JStr ''13.4'')]"

definition flat_stored :: post where
  "flat_stored = \<lparr> post_id = ''n'', title = ''Flat A'', price = 1200, images = [],
              address = Some [], city = ''Berlin'', bedroom = Some 0, bathroom = Some 0,
              latitude = None, longitude = None, ptype = ''rent'',
              property = ''apartment'', createdAt = 100, updatedAt = 100,
              userId = ''u1'' \<rparr>"

text \<open>An update request that moves a Listing: it supplies both coordinates.\<close>

definition move_request :: "(string \<times> jsval) list" where
  "move_request = [(''latitude'', JStr ''48.1''), (''longitude'', JStr ''11.5'')]"

text \<open>A search for Berlin from 1000 upwards, with a parameter the builder does not know.\<close>

definition berlin_query :: query where
  "berlin_query = [''city'' \<mapsto> ''BER'', ''minPrice'' \<mapsto> ''1000'', ''page'' \<mapsto> ''2'']"





section \<open>Facts about the model\<close>

lemma failed_sel [simp]:
  "status (failed m d cs) = 500" "store (failed m d cs) = d" "calls (failed m d cs) = cs"
  "body (failed m d cs) = Message m"
  by (simp_all add: failed_def)

lemma demo_find [simp]:
  "find_post demo_db ''p1'' = Some flat_a"
  "find_post demo_db ''p2'' = Some house_b"
  "find_post demo_db ''p3'' = None"
  "find_user demo_db ''u1'' = Some ann"
  "find_user demo_db ''u9'' = None"
  "find_detail demo_db ''p1'' = Some detail_a"
  by (simp_all add: find_post_def find_user_def find_detail_def demo_db_def flat_a_def
        house_b_def ann_def detail_a_def)

subsection \<open>The ownership lookup\<close>

lemma findUnique_ok: "\<not> faults e k \<Longrightarrow> findUnique e k d i = Inr (find_post d i)"
  by (simp add: findUnique_def)

lemma ownership_update:
  assumes "\<not> faults e 0"
  shows "(find_post d i = None \<longrightarrow>
            status (updatePost e d i tokenUserId req_body) = 404
            \<and> store (updatePost e d i tokenUserId req_body) = d
            \<and> calls (updatePost e d i tokenUserId req_body) = [FindUnique i])
       \<and> (\<forall>p. find_post d i = Some p \<and> userId p \<noteq> tokenUserId \<longrightarrow>
            status (updatePost e d i tokenUserId req_body) = 403
            \<and> store (updatePost e d i tokenUserId req_body) = d
            \<and> calls (updatePost e d i tokenUserId req_body) = [FindUnique i])"
  using assms by (simp add: updatePost_def findUnique_def)

lemma ownership_delete:
  assumes "\<not> faults e 0"
  shows "(find_post d i = None \<longrightarrow>
            status (deletePost e d i tokenUserId) = 404
            \<and> store (deletePost e d i tokenUserId) = d
            \<and> calls (deletePost e d i tokenUserId) = [FindUnique i])
       \<and> (\<forall>p. find_post d i = Some p \<and> userId p \<noteq> tokenUserId \<longrightarrow>
            status (deletePost e d i tokenUserId) = 403
            \<and> store (deletePost e d i tokenUserId) = d
            \<and> calls (deletePost e d i tokenUserId) = [FindUnique i])"
  using assms by (simp add: deletePost_def findUnique_def)

lemma mutation_needs_owner_update:
  "(\<exists>p. find_post d i = Some p \<and> userId p = tokenUserId)
   \<or> (store (updatePost e d i tokenUserId req_body) = d
       \<and> calls (updatePost e d i tokenUserId req_body) = [FindUnique i])"
  by (cases "find_post d i") (auto simp: updatePost_def findUnique_def)

lemma mutation_needs_owner_delete:
  "(\<exists>p. find_post d i = Some p \<and> userId p = tokenUserId)
   \<or> (store (deletePost e d i tokenUserId) = d
       \<and> calls (deletePost e d i tokenUserId) = [FindUnique i])"
  by (cases "find_post d i") (auto simp: deletePost_def findUnique_def)

subsection \<open>Deleting\<close>

lemma delete_frame:
  "conversations (store (deletePost e d i tokenUserId)) = conversations d
   \<and> users (store (deletePost e d i tokenUserId)) = users d
   \<and> messages (store (deletePost e d i tokenUserId)) = messages d"
  by (auto simp: deletePost_def findUnique_def delete_def on_delete_conversations_def
           split: option.splits)

lemma delete_effect:
  "status (deletePost e d i tokenUserId) = 200 \<longrightarrow>
     posts (store (deletePost e d i tokenUserId)) = filter (\<lambda>y. post_id y \<noteq> i) (posts d)
     \<and> postDetails (store (deletePost e d i tokenUserId)) = filter (\<lambda>x. postId x \<noteq> i) (postDetails d)
     \<and> calls (deletePost e d i tokenUserId) = [FindUnique i, Delete i]"
  by (auto simp: deletePost_def findUnique_def delete_def split: option.splits)

lemma delete_other:
  "status (deletePost e d i tokenUserId) \<noteq> 200 \<longrightarrow> store (deletePost e d i tokenUserId) = d"
  by (auto simp: deletePost_def findUnique_def delete_def split: option.splits)

lemma find_filter_self: "find (\<lambda>y. f y = i) (filter (\<lambda>y. f y \<noteq> i) xs) = None"
  by (induction xs) auto

subsection \<open>Creating\<close>

lemma new_post_coordinates:
  "new_post e k x = Some p \<Longrightarrow> latitude p = None \<and> longitude p = None \<and> userId p = pc_userId x"
  by (auto simp: new_post_def bind_eq_Some_conv)

lemma post_create_call_Inr:
  assumes "post_create_call e k d x = Inr (d', p)"
  shows "posts d' = posts d @ [p] \<and> users d' = users d \<and> conversations d' = conversations d
         \<and> messages d' = messages d
         \<and> latitude p = None \<and> longitude p = None \<and> userId p = pc_userId x"
  using assms new_post_coordinates [of e k x p]
  by (auto simp: post_create_call_def split: if_splits option.splits)

lemma joined_user_create:
  assumes "post_create_call e k d x = Inr (d', p)"
  shows "joined_user d' p = map_option select_user (find_user d (pc_userId x))"
  using post_create_call_Inr [OF assms] by (simp add: joined_user_def find_user_def)

lemma create_attempt_Inl:
  "post_create_call e k d x = Inl err \<Longrightarrow> create_attempt e k d x = (d, Inl err)"
  by (simp add: create_attempt_def)

lemma create_attempt_Inr:
  assumes "post_create_call e k d x = Inr (d', p)" and "find_user d (pc_userId x) = Some a"
  shows "create_attempt e k d x
         = (d', Inr \<lparr> s_record = with_include d' p,
                      s_ownerInfo = owner_info (select_user a) (city p) \<rparr>)"
  using assms joined_user_create [OF assms(1)]
  by (simp add: create_attempt_def shape_def with_include_def)

lemma create_attempt_posts:
  "\<exists>ps. posts (fst (create_attempt e k d x)) = posts d @ ps \<and> length ps \<le> 1
        \<and> list_all (\<lambda>p. latitude p = None \<and> longitude p = None) ps"
proof (cases "post_create_call e k d x")
  case (Inl err)
  then show ?thesis by (simp add: create_attempt_def)
next
  case (Inr r)
  obtain d' p where r: "r = (d', p)" by (cases r)
  from post_create_call_Inr [of e k d x d' p] Inr r
  have "posts (fst (create_attempt e k d x)) = posts d @ [p]
        \<and> list_all (\<lambda>p. latitude p = None \<and> longitude p = None) [p]"
    by (simp add: create_attempt_def)
  then show ?thesis by (intro exI [of _ "[p]"]) simp
qed

lemma pc_userId_create_data [simp]: "pc_userId (create_data u b) = u"
  by (simp add: create_data_def)



lemma flat_request_props [simp]:
  "prop_of (JObj flat_request) ''title'' = JStr ''Flat A''"
  "prop_of (JObj flat_request) ''price'' = JNum (Fin 1200)"
  "prop_of (JObj flat_request) ''city'' = JStr ''Berlin''"
  "prop_of (JObj flat_request) ''images'' = JUndefined"
  "prop_of (JObj flat_request) ''address'' = JUndefined"
  "prop_of (JObj flat_request) ''bedroom'' = JUndefined"
  "prop_of (JObj flat_request) ''bathroom'' = JUndefined"
  "prop_of (JObj flat_request) ''type'' = JUndefined"
  "prop_of (JObj flat_request) ''property'' = JUndefined"
  "prop_of (JObj flat_request) ''postDetail'' = JUndefined"
  by (simp_all add: flat_request_def)

lemma flat_create_data:
  "create_data ''u1'' (JObj flat_request)
   = \<lparr> pc_title = JStr ''Flat A'', pc_price = JNum (Fin 1200), pc_images = JArr [],
       pc_address = JStr [], pc_city = JStr ''Berlin'', pc_bedroom = JNum (Fin 0),
       pc_bathroom = JNum (Fin 0), pc_type = JStr ''rent'', pc_property = JStr ''apartment'',
       pc_userId = ''u1'', pc_postDetail = None \<rparr>"
  by (simp add: create_data_def numeric_def is_string_def js_or_def del: prop_of.simps)

lemma flat_new_post_any:
  "now e = 100 \<Longrightarrow> newId e (2 * k) = ''n'' \<Longrightarrow>
   new_post e k (create_data ''u1'' (JObj flat_request)) = Some flat_stored"
  by (simp add: flat_create_data new_post_def required_def optional_def as_string_def
        as_float_def as_int_def as_string_list_def flat_stored_def)

lemma flat_create_call_any:
  "\<not> faults e k \<Longrightarrow> now e = 100 \<Longrightarrow> newId e (2 * k) = ''n'' \<Longrightarrow>
   post_create_call e k d (create_data ''u1'' (JObj flat_request))
   = Inr (d\<lparr> posts := posts d @ [flat_stored] \<rparr>, flat_stored)"
  by (simp add: post_create_call_def flat_new_post_any) (simp add: flat_create_data)

lemma create_call_faults:
  "faults e k \<Longrightarrow> post_create_call e k d x = Inl StorageFault"
  by (simp add: post_create_call_def)

subsection \<open>A create request reads no coordinate\<close>

lemma map_of_filter_key:
  "map_of (filter (\<lambda>kv. P (fst kv)) kvs) k = (if P k then map_of kvs k else None)"
  by (induction kvs) auto

lemma prop_of_without_coordinates:
  "k \<noteq> ''latitude'' \<Longrightarrow> k \<noteq> ''longitude'' \<Longrightarrow>
   prop_of (JObj (filter (\<lambda>kv. fst kv \<noteq> ''latitude'' \<and> fst kv \<noteq> ''longitude'') kvs)) k
   = prop_of (JObj kvs) k"
  using map_of_filter_key [of "\<lambda>k. k \<noteq> ''latitude'' \<and> k \<noteq> ''longitude''" kvs k]
  by simp

lemma create_data_without_coordinates:
  "create_data u (JObj (filter (\<lambda>kv. fst kv \<noteq> ''latitude'' \<and> fst kv \<noteq> ''longitude'') kvs))
   = create_data u (JObj kvs)"
  by (simp add: create_data_def prop_of_without_coordinates del: prop_of.simps)

lemma addPost_without_coordinates:
  "addPost e d u (filter (\<lambda>kv. fst kv \<noteq> ''latitude'' \<and> fst kv \<noteq> ''longitude'') kvs)
   = addPost e d u kvs"
  by (simp add: addPost_def create_data_without_coordinates prop_of_without_coordinates
        del: prop_of.simps)

lemma addPost_store_cases:
  "store (addPost e d u kvs) = d
   \<or> store (addPost e d u kvs) = fst (create_attempt e 0 d (create_data u (JObj kvs)))
   \<or> store (addPost e d u kvs)
       = fst (create_attempt e 1 (fst (create_attempt e 0 d (create_data u (JObj kvs))))
                (create_data u (JObj kvs)))"
  by (auto simp: addPost_def Let_def split: prod.splits sum.splits simp del: prop_of.simps)

lemma addPost_added:
  "\<exists>ps. posts (store (addPost e d u kvs)) = posts d @ ps \<and> length ps \<le> 2
        \<and> list_all (\<lambda>p. latitude p = None \<and> longitude p = None) ps"
proof -
  let ?x = "create_data u (JObj kvs)"
  let ?d1 = "fst (create_attempt e 0 d ?x)"
  let ?d2 = "fst (create_attempt e 1 ?d1 ?x)"
  obtain ps1 where 1: "posts ?d1 = posts d @ ps1" "length ps1 \<le> 1"
      "list_all (\<lambda>p. latitude p = None \<and> longitude p = None) ps1"
    using create_attempt_posts [of e 0 d ?x] by blast
  obtain ps2 where 2: "posts ?d2 = posts ?d1 @ ps2" "length ps2 \<le> 1"
      "list_all (\<lambda>p. latitude p = None \<and> longitude p = None) ps2"
    using create_attempt_posts [of e 1 ?d1 ?x] by blast
  consider "store (addPost e d u kvs) = d" | "store (addPost e d u kvs) = ?d1"
    | "store (addPost e d u kvs) = ?d2"
    using addPost_store_cases [of e d u kvs] by blast
  then show ?thesis
  proof cases
    case 1
    then show ?thesis by (intro exI [of _ "[]"]) simp
  next
    case 2
    with 1 show ?thesis by (intro exI [of _ ps1]) simp
  next
    case 3
    with 1 2 show ?thesis by (intro exI [of _ "ps1 @ ps2"]) simp
  qed
qed

lemma addPost_calls_length: "length (calls (addPost e d u kvs)) \<le> 2"
  by (auto simp: addPost_def Let_def split: prod.splits sum.splits simp del: prop_of.simps)

lemma addPost_retry:
  assumes "truthy (prop_of (JObj kvs) ''title'')" "truthy (prop_of (JObj kvs) ''price'')"
      "truthy (prop_of (JObj kvs) ''city'')"
      "post_create_call e 0 d (create_data u (JObj kvs)) = Inl err"
  shows "calls (addPost e d u kvs)
           = [Create (create_data u (JObj kvs)), Create (create_data u (JObj kvs))]"
    and "post_create_call e 1 d (create_data u (JObj kvs)) = Inl err2 \<Longrightarrow>
           status (addPost e d u kvs) = 500
           \<and> body (addPost e d u kvs) = Failure ''Failed to create post in database'' err2
           \<and> store (addPost e d u kvs) = d"
    and "post_create_call e 1 d (create_data u (JObj kvs)) = Inr (d', p) \<Longrightarrow>
         find_user d u = Some a \<Longrightarrow>
           status (addPost e d u kvs) = 201 \<and> store (addPost e d u kvs) = d'
           \<and> posts d' = posts d @ [p] \<and> latitude p = None \<and> longitude p = None"
proof -
  let ?x = "create_data u (JObj kvs)"
  from assms have a0: "create_attempt e 0 d ?x = (d, Inl err)"
    by (simp add: create_attempt_Inl)
  show "calls (addPost e d u kvs) = [Create ?x, Create ?x]"
    using assms(1-3) a0
    by (auto simp: addPost_def Let_def split: prod.splits sum.splits simp del: prop_of.simps)
  show "status (addPost e d u kvs) = 500
           \<and> body (addPost e d u kvs) = Failure ''Failed to create post in database'' err2
           \<and> store (addPost e d u kvs) = d"
    if "post_create_call e 1 d ?x = Inl err2"
    using assms(1-3) a0 create_attempt_Inl [OF that]
    by (simp add: addPost_def Let_def del: prop_of.simps)
  show "status (addPost e d u kvs) = 201 \<and> store (addPost e d u kvs) = d'
           \<and> posts d' = posts d @ [p] \<and> latitude p = None \<and> longitude p = None"
    if "post_create_call e 1 d ?x = Inr (d', p)" "find_user d u = Some a"
    using assms(1-3) a0 create_attempt_Inr [OF that(1), of a] that(2)
      post_create_call_Inr [OF that(1)]
    by (simp add: addPost_def Let_def del: prop_of.simps)
qed

subsection \<open>Listing\<close>

lemma getPosts_listings:
  "listings_of (getPosts e d q)
   = (case findMany e 0 d (Some (buildWhere q)) True of
        Inr ps \<Rightarrow> map (transform (now e)) ps
      | Inl err \<Rightarrow>
          (case findMany e 1 d None False of
             Inr basic \<Rightarrow> map (simple (now e)) basic
           | Inl err2 \<Rightarrow> []))"
  by (simp add: getPosts_def listings_of_def Let_def split: sum.splits)

lemma getPosts_coordinates:
  "list_all (\<lambda>l. l_latitude l = None \<and> l_longitude l = None) (listings_of (getPosts e d q))"
  by (auto simp: getPosts_listings list_all_iff transform_def simple_def split: sum.splits)

lemma getPosts_status: "status (getPosts e d q) = 200"
  by (simp add: getPosts_def Let_def split: sum.splits)

lemma getPosts_unreachable:
  "faults e 0 \<Longrightarrow> faults e 1 \<Longrightarrow>
   status (getPosts e d q) = 200 \<and> body (getPosts e d q) = Listings [] \<and> store (getPosts e d q) = d"
  by (simp add: getPosts_def findMany_def Let_def)

lemma findMany_full_owner:
  assumes "findMany e k d w True = Inr rs"
  shows "list_all (\<lambda>r. r_user r = map_option select_user (find_user d (r_userId r))) rs"
  using assms
  by (auto simp: findMany_def rows_def select_row_def joined_user_def list_all_iff
           split: if_splits option.splits)

lemma transform_owner:
  "r_user r = map_option select_user (find_user d (r_userId r)) \<Longrightarrow>
   l_ownerInfo (transform t r)
   = (case find_user d (r_userId r) of
        Some a \<Rightarrow> owner_info (select_user a) (str_or (r_city r) ''Unknown City'')
      | None \<Rightarrow> unknown_owner t (str_or (r_city r) ''Unknown City''))"
  by (simp add: transform_def split: option.splits)

lemma getPosts_full_owner:
  assumes "findMany e 0 d (Some (buildWhere q)) True = Inr rs"
  shows "listings_of (getPosts e d q) = map (transform (now e)) rs"
    and "list_all (\<lambda>l. l_ownerInfo l
             = (case find_user d (r_userId (l_row l)) of
                  Some a \<Rightarrow> owner_info (select_user a) (str_or (r_city (l_row l)) ''Unknown City'')
                | None \<Rightarrow> unknown_owner (now e) (str_or (r_city (l_row l)) ''Unknown City'')))
           (listings_of (getPosts e d q))"
proof -
  show l: "listings_of (getPosts e d q) = map (transform (now e)) rs"
    using assms by (simp add: getPosts_listings)
  have row: "l_row (transform t r) = r" for t r by (simp add: transform_def)
  from findMany_full_owner [OF assms] show "list_all (\<lambda>l. l_ownerInfo l
             = (case find_user d (r_userId (l_row l)) of
                  Some a \<Rightarrow> owner_info (select_user a) (str_or (r_city (l_row l)) ''Unknown City'')
                | None \<Rightarrow> unknown_owner (now e) (str_or (r_city (l_row l)) ''Unknown City'')))
           (listings_of (getPosts e d q))"
    unfolding l by (auto simp: list_all_iff row transform_owner cong: option.case_cong)
qed

lemma getPosts_fallback_owner:
  assumes "findMany e 0 d (Some (buildWhere q)) True = Inl err"
  shows "list_all (\<lambda>l. l_ownerInfo l = unknown_owner (now e) (str_or (r_city (l_row l)) ''Unknown''))
           (listings_of (getPosts e d q))"
  using assms by (auto simp: getPosts_listings list_all_iff simple_def split: sum.splits)

lemma getPost_200:
  assumes "status (getPost e d i) = 200"
  shows "\<exists>p a. find_post d i = Some p \<and> find_user d (userId p) = Some a
           \<and> body (getPost e d i)
               = Shaped \<lparr> s_record = with_include d p,
                          s_ownerInfo = owner_info (select_user a) (city p) \<rparr>"
  using assms
  by (cases "faults e 0"; cases "find_post d i"; cases "find_user d (userId (the (find_post d i)))")
     (auto simp: getPost_def findUnique_def shape_def with_include_def joined_user_def)

lemma matches_empty: "matches (buildWhere Map.empty) p"
  by (simp add: matches_def buildWhere_def given_def opt_holds_def)

subsection \<open>Updating\<close>

lemma find_map_replace:
  "find (\<lambda>y. f y = i) xs = Some p \<Longrightarrow> f p' = i \<Longrightarrow>
   find (\<lambda>y. f y = i) (map (\<lambda>y. if f y = i then p' else y) xs) = Some p'"
  by (induction xs) (auto split: if_splits)

lemma write_post_Some:
  assumes "write_post e x p = Some p'"
  shows "post_id p' = post_id p" "userId p' = userId p" "createdAt p' = createdAt p"
    "updatedAt p' = now e"
    "required as_string (pu_title x) (Some (title p)) = Some (title p')"
    "required as_float (pu_price x) (Some (price p)) = Some (price p')"
    "required as_string_list (pu_images x) (Some (images p)) = Some (images p')"
    "optional as_string (pu_address x) (address p) = Some (address p')"
    "required as_string (pu_city x) (Some (city p)) = Some (city p')"
    "optional as_int (pu_bedroom x) (bedroom p) = Some (bedroom p')"
    "optional as_float (pu_bathroom x) (bathroom p) = Some (bathroom p')"
    "optional as_string (pu_latitude x) (latitude p) = Some (latitude p')"
    "optional as_string (pu_longitude x) (longitude p) = Some (longitude p')"
    "required as_string (pu_type x) (Some (ptype p)) = Some (ptype p')"
    "required as_string (pu_property x) (Some (property p)) = Some (property p')"
  using assms by (auto simp: write_post_def bind_eq_Some_conv)

lemma update_Inr:
  assumes "update e k d i x = Inr (d', p')"
  shows "\<exists>p. find_post d i = Some p \<and> write_post e x p = Some p'"
    and "posts d' = map (\<lambda>y. if post_id y = i then p' else y) (posts d)"
    and "postDetails d' = postDetails d" and "users d' = users d"
    and "conversations d' = conversations d" and "messages d' = messages d"
    and "find_post d' i = Some p'"
proof -
  from assms obtain p where p: "find_post d i = Some p" "write_post e x p = Some p'"
      and d': "d' = d\<lparr> posts := map (\<lambda>y. if post_id y = i then p' else y) (posts d) \<rparr>"
    by (auto simp: update_def split: if_splits option.splits)
  from p show "\<exists>p. find_post d i = Some p \<and> write_post e x p = Some p'" by blast
  from d' show "posts d' = map (\<lambda>y. if post_id y = i then p' else y) (posts d)"
    and "postDetails d' = postDetails d" and "users d' = users d"
    and "conversations d' = conversations d" and "messages d' = messages d"
    by simp_all
  from p(1) have "post_id p = i" by (auto simp: find_post_def find_Some_iff)
  with write_post_Some(1) [OF p(2)] have "post_id p' = i" by simp
  with p(1) d' show "find_post d' i = Some p'"
    by (simp add: find_post_def find_map_replace)
qed

lemma upsert_frame:
  assumes "upsert e k d i u c = Inr d1"
  shows "posts d1 = posts d" "users d1 = users d" "conversations d1 = conversations d"
    "messages d1 = messages d"
  using assms by (auto simp: upsert_def split: if_splits option.splits)

lemma update_main_200:
  assumes "status (update_main e k d i b cs) = 200"
  shows "\<exists>p'. update e k d i (update_data b) = Inr (store (update_main e k d i b cs), p')"
  using assms by (auto simp: update_main_def split: sum.splits prod.splits)

lemma updatePost_200:
  assumes "status (updatePost e d i u kvs) = 200"
  shows "\<exists>p p'. find_post d i = Some p \<and> userId p = u
           \<and> write_post e (update_data (JObj kvs)) p = Some p'
           \<and> find_post (store (updatePost e d i u kvs)) i = Some p'
           \<and> posts (store (updatePost e d i u kvs))
               = map (\<lambda>y. if post_id y = i then p' else y) (posts d)"
proof -
  let ?b = "JObj kvs"
  let ?pd = "prop_of ?b ''postDetail''"
  from assms obtain p where p: "find_post d i = Some p" "userId p = u"
    by (cases "find_post d i"; cases "faults e 0"; cases "userId (the (find_post d i)) = u")
       (auto simp: updatePost_def findUnique_def)
  from assms p have nf: "\<not> faults e 0"
    by (cases "faults e 0") (auto simp: updatePost_def findUnique_def)
  obtain dm k where dm: "posts dm = posts d"
      "status (update_main e k dm i ?b
         (if truthy ?pd then [FindUnique i, Upsert i (update_detail ?pd) (create_detail ?pd)]
          else [FindUnique i])) = 200"
      "store (updatePost e d i u kvs)
       = store (update_main e k dm i ?b
         (if truthy ?pd then [FindUnique i, Upsert i (update_detail ?pd) (create_detail ?pd)]
          else [FindUnique i]))"
  proof (cases "truthy ?pd")
    case False
    with assms p nf have "status (update_main e 1 d i ?b [FindUnique i]) = 200"
      "store (updatePost e d i u kvs) = store (update_main e 1 d i ?b [FindUnique i])"
      by (simp_all add: updatePost_def findUnique_def Let_def del: prop_of.simps)
    with False that [of d 1] show thesis by simp
  next
    case True
    with assms p nf obtain d1 where d1:
      "upsert e 1 d i (update_detail ?pd) (create_detail ?pd) = Inr d1"
      by (cases "upsert e 1 d i (update_detail ?pd) (create_detail ?pd)")
         (simp_all add: updatePost_def findUnique_def Let_def del: prop_of.simps)
    with assms p nf True have
      "status (update_main e 2 d1 i ?b
         [FindUnique i, Upsert i (update_detail ?pd) (create_detail ?pd)]) = 200"
      "store (updatePost e d i u kvs) = store (update_main e 2 d1 i ?b
         [FindUnique i, Upsert i (update_detail ?pd) (create_detail ?pd)])"
      by (simp_all add: updatePost_def findUnique_def Let_def del: prop_of.simps)
    with True upsert_frame(1) [OF d1] that [of d1 2] show thesis by simp
  qed
  from update_main_200 [OF dm(2)] dm(3)
  obtain p' where u: "update e k dm i (update_data ?b) = Inr (store (updatePost e d i u kvs), p')"
    by auto
  from update_Inr(1) [OF u] dm(1) p have "write_post e (update_data ?b) p = Some p'"
    by (simp add: find_post_def)
  with p update_Inr(7) [OF u] update_Inr(2) [OF u] dm(1) show ?thesis by simp
qed

lemma optional_string: "optional as_string (JStr s) old = Some (Some s)"
  by (simp add: optional_def as_string_def)

subsection \<open>The filter\<close>

lemma starts_with_iff: "starts_with v s \<longleftrightarrow> (\<exists>suf. s = v @ suf)"
  by (induction v s rule: starts_with.induct) auto

lemma contains_iff: "contains v s \<longleftrightarrow> (\<exists>pre suf. s = pre @ v @ suf)"
proof (induction s)
  case Nil
  then show ?case by simp
next
  case (Cons d ds)
  have "(\<exists>pre suf. d # ds = pre @ v @ suf)
        \<longleftrightarrow> (\<exists>suf. d # ds = v @ suf) \<or> (\<exists>pre suf. ds = pre @ v @ suf)"
    by (auto simp: Cons_eq_append_conv) 
  with Cons show ?case by (simp add: starts_with_iff)
qed

lemma contains_insensitive_iff: "contains_insensitive v s \<longleftrightarrow> ci_substring v s"
  by (simp add: contains_insensitive_def ci_substring_def contains_iff)

lemma overflow_bound_eq: "overflow_bound = 2 ^ 1024 - 2 ^ 970"
  by (simp add: overflow_bound_def)

lemma underflow_bound_eq: "underflow_bound = 1 / 2 ^ 1075"
  by (simp add: underflow_bound_def)

lemma double_of_int_cases:
  "double_of (of_int m) = PInf \<or> double_of (of_int m) = NInf
   \<or> (\<exists>n. double_of (of_int m) = Fin (of_int n))"
proof -
  have "Fin 0 = Fin (of_int 0)" by simp
  then show ?thesis unfolding double_of_def by metis
qed

lemma parseInt_str_cases:
  "parseInt_str v = NaN \<or> parseInt_str v = PInf \<or> parseInt_str v = NInf
   \<or> (\<exists>n. parseInt_str v = Fin (of_int n))"
proof -
  obtain neg u where su: "strip_sign (dropWhile is_ws v) = (neg, u)"
    by (cases "strip_sign (dropWhile is_ws v)")
  define m where "m = (if neg then - 1 else 1)
      * digits_value (int (if take 2 u = ''0x'' \<or> take 2 u = ''0X'' then 16 else 10))
          (digits_prefix (if take 2 u = ''0x'' \<or> take 2 u = ''0X'' then 16 else 10)
             (if take 2 u = ''0x'' \<or> take 2 u = ''0X'' then drop 2 u else u))"
  have "parseInt_str v = NaN \<or> parseInt_str v = double_of (of_int m)"
    unfolding parseInt_str_def Let_def su m_def prod.case by metis
  with double_of_int_cases [of m] show ?thesis
    by metis
qed

lemma num_le_parse_left:
  "num_le (parseInt_str v) (Fin y) \<longleftrightarrow> (\<exists>n. parseInt_str v = Fin (of_int n) \<and> of_int n \<le> y)"
  using parseInt_str_cases [of v] by (auto simp: num_le_def)

lemma num_le_parse_right:
  "num_le (Fin y) (parseInt_str v) \<longleftrightarrow> (\<exists>n. parseInt_str v = Fin (of_int n) \<and> y \<le> of_int n)"
  using parseInt_str_cases [of v] by (auto simp: num_le_def)

lemma where_city:
  "opt_holds (w_city (buildWhere q)) (\<lambda>v. contains_insensitive v (city p))
   \<longleftrightarrow> (\<forall>v. q ''city'' = Some v \<and> v \<noteq> [] \<longrightarrow> ci_substring v (city p))"
  by (auto simp: buildWhere_def given_def param_def opt_holds_def contains_insensitive_iff
           split: option.splits)

lemma where_type:
  "opt_holds (w_type (buildWhere q)) (\<lambda>v. ptype p = v)
   \<longleftrightarrow> (\<forall>v. q ''type'' = Some v \<and> v \<noteq> [] \<longrightarrow> ptype p = v)"
  by (auto simp: buildWhere_def given_def param_def opt_holds_def split: option.splits)

lemma where_property:
  "opt_holds (w_property (buildWhere q)) (\<lambda>v. property p = v)
   \<longleftrightarrow> (\<forall>v. q ''property'' = Some v \<and> v \<noteq> [] \<longrightarrow> property p = v)"
  by (auto simp: buildWhere_def given_def param_def opt_holds_def split: option.splits)

lemma where_bedroom:
  "opt_holds (w_bedroom (buildWhere q))
     (\<lambda>n. case bedroom p of None \<Rightarrow> False | Some b \<Rightarrow> num_le n (Fin (of_int b)))
   \<longleftrightarrow> (\<forall>v. q ''bedroom'' = Some v \<and> v \<noteq> [] \<longrightarrow>
          (\<exists>n b. parseInt_str v = Fin (of_int n) \<and> bedroom p = Some b \<and> n \<le> b))"
  by (cases "q ''bedroom''"; cases "bedroom p")
     (auto simp: buildWhere_def given_def param_def opt_holds_def num_le_parse_left)

lemma where_price:
  "opt_holds (w_price (buildWhere q))
     (\<lambda>r. opt_holds (gte r) (\<lambda>n. num_le n (Fin (price p))) \<and>
          opt_holds (lte r) (\<lambda>n. num_le (Fin (price p)) n))
   \<longleftrightarrow> (\<forall>v. q ''minPrice'' = Some v \<and> v \<noteq> [] \<longrightarrow>
          (\<exists>n. parseInt_str v = Fin (of_int n) \<and> of_int n \<le> price p))
     \<and> (\<forall>v. q ''maxPrice'' = Some v \<and> v \<noteq> [] \<longrightarrow>
          (\<exists>n. parseInt_str v = Fin (of_int n) \<and> price p \<le> of_int n))"
  by (cases "q ''minPrice''"; cases "q ''maxPrice''")
     (auto simp: buildWhere_def given_def param_def opt_holds_def num_le_parse_left
        num_le_parse_right)

lemma buildWhere_unrecognised:
  assumes "k \<noteq> ''city''" "k \<noteq> ''type''" "k \<noteq> ''property''" "k \<noteq> ''bedroom''"
    "k \<noteq> ''minPrice''" "k \<noteq> ''maxPrice''"
  shows "buildWhere (q(k := x)) = buildWhere q"
  using assms by (simp add: buildWhere_def given_def param_def)

lemma getPosts_full_ids:
  assumes "\<not> faults e 0" "valid_where (buildWhere q)"
  shows "map (\<lambda>l. r_id (l_row l)) (listings_of (getPosts e d q))
         = map post_id (newest_first (filter (matches (buildWhere q)) (posts d)))"
  using assms
  by (simp add: getPosts_listings findMany_def rows_def transform_def select_row_def comp_def)

subsection \<open>The numeric fields of an update\<close>













subsection \<open>A value that is not written\<close>









subsection \<open>Reading one Listing whose owner has an Account\<close>

lemma getPost_joined:
  assumes "\<not> faults e 0" "find_post d i = Some p" "find_user d (userId p) = Some a"
  shows "status (getPost e d i) = 200"
    and "body (getPost e d i)
         = Shaped \<lparr> s_record = with_include d p,
                    s_ownerInfo = owner_info (select_user a) (city p) \<rparr>"
  using assms
  by (simp_all add: getPost_def findUnique_def shape_def with_include_def joined_user_def)

section \<open>The fallback of a list request\<close>

text \<open>
  Claim C1, at a request the code answers otherwise than the claim says. The claim: the
  fallback query differs from the original only by dropping the owner join, the built
  filter still applied. The request lists the Listings of Berlin. A backend that answers
  returns the one Listing of Berlin. When the first storage call faults, the second call
  the controller makes carries no filter at all (\<open>FindMany None False\<close>), and the
  response holds the Listing of Paris as well. The rest of the claim holds: the answer
  is 200 here too, and 200 with an empty sequence when the backend is unreachable
  (\<open>getPosts_status\<close>, \<open>getPosts_unreachable\<close> for every request).
\<close>

theorem list_fallback_ignores_filter:
  "w_city (buildWhere [''city'' \<mapsto> ''Berlin'']) = Some ''Berlin''
   \<and> map (\<lambda>l. r_city (l_row l))
        (listings_of (getPosts reachable demo_db [''city'' \<mapsto> ''Berlin''])) = [''Berlin'']
   \<and> calls (getPosts first_call_faults demo_db [''city'' \<mapsto> ''Berlin''])
       = [FindMany (Some (buildWhere [''city'' \<mapsto> ''Berlin''])) True, FindMany None False]
   \<and> status (getPosts first_call_faults demo_db [''city'' \<mapsto> ''Berlin'']) = 200
   \<and> map (\<lambda>l. r_city (l_row l))
        (listings_of (getPosts first_call_faults demo_db [''city'' \<mapsto> ''Berlin'']))
       = [''Paris'', ''Berlin'']
   \<and> status (getPosts unreachable demo_db [''city'' \<mapsto> ''Berlin'']) = 200
   \<and> body (getPosts unreachable demo_db [''city'' \<mapsto> ''Berlin'']) = Listings []"
  by code_simp

section \<open>The ownership check of update and delete\<close>

text \<open>
  Claim C2. For every update or delete request on a Listing whose ownership lookup
  returns: when no Listing has the identifier the answer is 404, whoever asks; when one
  has and its owner is not the authenticated subject the answer is 403 (not 404); in
  both cases the store is unchanged. A storage call after the lookup is made, and the
  store changes, only when the Listing exists and its owner is the authenticated
  subject. (A lookup that faults is answered 500 by the catch-all, the store unchanged.)
\<close>

theorem ownership_check:
  assumes "\<not> faults e 0"
  shows "(find_post d i = None \<longrightarrow>
            status (updatePost e d i tokenUserId req_body) = 404
            \<and> store (updatePost e d i tokenUserId req_body) = d
            \<and> status (deletePost e d i tokenUserId) = 404
            \<and> store (deletePost e d i tokenUserId) = d)
       \<and> (\<forall>p. find_post d i = Some p \<and> userId p \<noteq> tokenUserId \<longrightarrow>
            status (updatePost e d i tokenUserId req_body) = 403
            \<and> store (updatePost e d i tokenUserId req_body) = d
            \<and> status (deletePost e d i tokenUserId) = 403
            \<and> store (deletePost e d i tokenUserId) = d)
       \<and> ((\<exists>p. find_post d i = Some p \<and> userId p = tokenUserId)
           \<or> (store (updatePost e d i tokenUserId req_body) = d
               \<and> calls (updatePost e d i tokenUserId req_body) = [FindUnique i]
               \<and> store (deletePost e d i tokenUserId) = d
               \<and> calls (deletePost e d i tokenUserId) = [FindUnique i]))"
  using ownership_update [OF assms, of d i tokenUserId req_body]
        ownership_delete [OF assms, of d i tokenUserId]
        mutation_needs_owner_update [of d i tokenUserId e req_body]
        mutation_needs_owner_delete [of d i tokenUserId e]
  by blast

text \<open>
  On the small store: \<open>u2\<close> does not own \<open>p1\<close> (403 on both operations, nothing
  changed), and no Listing is \<open>p3\<close> (404 for the owner of \<open>p1\<close> and for \<open>u2\<close>).
\<close>

theorem ownership_check_witness:
  "status (updatePost reachable demo_db ''p1'' ''u2'' [(''title'', JStr ''Mine now'')]) = 403
   \<and> store (updatePost reachable demo_db ''p1'' ''u2'' [(''title'', JStr ''Mine now'')]) = demo_db
   \<and> status (deletePost reachable demo_db ''p1'' ''u2'') = 403
   \<and> store (deletePost reachable demo_db ''p1'' ''u2'') = demo_db
   \<and> status (updatePost reachable demo_db ''p3'' ''u1'' [(''title'', JStr ''Mine now'')]) = 404
   \<and> status (deletePost reachable demo_db ''p3'' ''u2'') = 404
   \<and> store (deletePost reachable demo_db ''p3'' ''u2'') = demo_db"
proof -
  have h: "\<not> faults reachable 0" by (simp add: reachable_def)
  have o: "userId flat_a \<noteq> ''u2''" by (simp add: flat_a_def)
  from ownership_check [OF h, of demo_db "''p1''" "''u2''" "[(''title'', JStr ''Mine now'')]"]
       ownership_check [OF h, of demo_db "''p3''" "''u1''" "[(''title'', JStr ''Mine now'')]"]
       ownership_check [OF h, of demo_db "''p3''" "''u2''" "[]"] o
  show ?thesis by simp
qed

section \<open>The filter builder\<close>

text \<open>
  Claim C3, as stated, at a request where it fails: a query whose \<open>type\<close> is the empty
  string. "Type is exact equality" would select the Listings whose type is the empty
  string; the builder tests \<^verbatim>\<open>if (query.type)\<close>, the empty string is falsy, and the
  filter selects every Listing, the one of type \<open>rent\<close> among them.
\<close>

theorem empty_type_is_no_filter:
  "[''type'' \<mapsto> []] ''type'' = Some []
   \<and> matches (buildWhere [''type'' \<mapsto> []]) flat_a
   \<and> ptype flat_a \<noteq> []"
  by (simp add: matches_def buildWhere_def given_def opt_holds_def flat_a_def)

text \<open>
  Claim C3, amended. The builder maps a query to a predicate such that: the empty
  mapping matches every Listing; an unrecognised key, present or not, leaves the filter
  unchanged; and a recognised key constrains the result only when its value is a
  non-empty string. Then \<open>city\<close> selects the Listings whose city contains the value
  as a case-insensitive substring, \<open>type\<close> and \<open>property\<close> are exact equality,
  \<open>bedroom\<close> is an at-least threshold on the integer \<^verbatim>\<open>parseInt\<close> reads from the
  value (no Listing without a bedroom count passes it), \<open>minPrice\<close> and \<open>maxPrice\<close>
  are a lower and an upper bound on the price, combinable. A list request whose first
  storage call does not fault and whose numbers parse returns exactly the Listings the
  predicate selects, newest first. (Where a number does not parse the filter carries
  \<open>NaN\<close>: no Listing matches, and the storage call is refused.)
\<close>

theorem filter_builder:
  "matches (buildWhere Map.empty) p
   \<and> (k \<noteq> ''city'' \<and> k \<noteq> ''type'' \<and> k \<noteq> ''property'' \<and> k \<noteq> ''bedroom''
        \<and> k \<noteq> ''minPrice'' \<and> k \<noteq> ''maxPrice'' \<longrightarrow> buildWhere (q(k := x)) = buildWhere q)
   \<and> (matches (buildWhere q) p \<longleftrightarrow>
        (\<forall>v. q ''city'' = Some v \<and> v \<noteq> [] \<longrightarrow> ci_substring v (city p))
        \<and> (\<forall>v. q ''type'' = Some v \<and> v \<noteq> [] \<longrightarrow> ptype p = v)
        \<and> (\<forall>v. q ''property'' = Some v \<and> v \<noteq> [] \<longrightarrow> property p = v)
        \<and> (\<forall>v. q ''bedroom'' = Some v \<and> v \<noteq> [] \<longrightarrow>
              (\<exists>n b. parseInt_str v = Fin (of_int n) \<and> bedroom p = Some b \<and> n \<le> b))
        \<and> (\<forall>v. q ''minPrice'' = Some v \<and> v \<noteq> [] \<longrightarrow>
              (\<exists>n. parseInt_str v = Fin (of_int n) \<and> of_int n \<le> price p))
        \<and> (\<forall>v. q ''maxPrice'' = Some v \<and> v \<noteq> [] \<longrightarrow>
              (\<exists>n. parseInt_str v = Fin (of_int n) \<and> price p \<le> of_int n)))
   \<and> (\<not> faults e 0 \<and> valid_where (buildWhere q) \<longrightarrow>
        map (\<lambda>l. r_id (l_row l)) (listings_of (getPosts e d q))
        = map post_id (newest_first (filter (matches (buildWhere q)) (posts d))))"
proof (intro conjI)
  show "matches (buildWhere Map.empty) p" by (rule matches_empty)
  show "k \<noteq> ''city'' \<and> k \<noteq> ''type'' \<and> k \<noteq> ''property'' \<and> k \<noteq> ''bedroom''
        \<and> k \<noteq> ''minPrice'' \<and> k \<noteq> ''maxPrice'' \<longrightarrow> buildWhere (q(k := x)) = buildWhere q"
    using buildWhere_unrecognised [of k q x] by blast
  show "matches (buildWhere q) p \<longleftrightarrow>
        (\<forall>v. q ''city'' = Some v \<and> v \<noteq> [] \<longrightarrow> ci_substring v (city p))
        \<and> (\<forall>v. q ''type'' = Some v \<and> v \<noteq> [] \<longrightarrow> ptype p = v)
        \<and> (\<forall>v. q ''property'' = Some v \<and> v \<noteq> [] \<longrightarrow> property p = v)
        \<and> (\<forall>v. q ''bedroom'' = Some v \<and> v \<noteq> [] \<longrightarrow>
              (\<exists>n b. parseInt_str v = Fin (of_int n) \<and> bedroom p = Some b \<and> n \<le> b))
        \<and> (\<forall>v. q ''minPrice'' = Some v \<and> v \<noteq> [] \<longrightarrow>
              (\<exists>n. parseInt_str v = Fin (of_int n) \<and> of_int n \<le> price p))
        \<and> (\<forall>v. q ''maxPrice'' = Some v \<and> v \<noteq> [] \<longrightarrow>
              (\<exists>n. parseInt_str v = Fin (of_int n) \<and> price p \<le> of_int n))"
    unfolding matches_def where_city where_type where_property where_bedroom where_price
    by (rule refl)
  show "\<not> faults e 0 \<and> valid_where (buildWhere q) \<longrightarrow>
        map (\<lambda>l. r_id (l_row l)) (listings_of (getPosts e d q))
        = map post_id (newest_first (filter (matches (buildWhere q)) (posts d)))"
    using getPosts_full_ids [of e q d] by blast
qed

text \<open>
  The search for \<open>BER\<close> from 1000 upwards selects the flat in Berlin and not the
  house in Paris, with or without the \<open>page\<close> parameter.
\<close>

theorem filter_builder_witness:
  "matches (buildWhere berlin_query) flat_a
   \<and> \<not> matches (buildWhere berlin_query) house_b
   \<and> buildWhere berlin_query = buildWhere [''city'' \<mapsto> ''BER'', ''minPrice'' \<mapsto> ''1000'']
   \<and> map (\<lambda>l. r_id (l_row l)) (listings_of (getPosts reachable demo_db berlin_query)) = [''p1'']"
proof -
  have ci: "ci_substring ''BER'' ''Berlin''"
    unfolding contains_insensitive_iff [symmetric] by code_simp
  have nci: "\<not> ci_substring ''BER'' ''Paris''"
    unfolding contains_insensitive_iff [symmetric] by code_simp
  have pi: "parseInt_str ''1000'' = Fin (of_int 1000)" by code_simp
  from filter_builder [of flat_a "''page''" berlin_query "None" reachable demo_db] ci pi
  have a: "matches (buildWhere berlin_query) flat_a"
    by (simp add: berlin_query_def flat_a_def)
  from filter_builder [of house_b "''page''" berlin_query "None" reachable demo_db] nci
  have b: "\<not> matches (buildWhere berlin_query) house_b"
    by (simp add: berlin_query_def house_b_def)
  from filter_builder [of flat_a "''page''" berlin_query "None" reachable demo_db]
  have c: "buildWhere berlin_query = buildWhere [''city'' \<mapsto> ''BER'', ''minPrice'' \<mapsto> ''1000'']"
    by (simp add: berlin_query_def fun_upd_twist)
  have v: "valid_where (buildWhere berlin_query)" by code_simp
  from filter_builder [of flat_a "''page''" berlin_query "None" reachable demo_db] v a b
  have d: "map (\<lambda>l. r_id (l_row l)) (listings_of (getPosts reachable demo_db berlin_query)) = [''p1'']"
    by (simp add: reachable_def demo_db_def newest_first_def flat_a_def)
  from a b c d show ?thesis by (intro conjI)
qed

section \<open>The numeric fields of an update\<close>




section \<open>Creating a Listing: coordinates and the retry\<close>

text \<open>
  Claim C5. The create operation never persists latitude or longitude: a request that
  supplies them is handled exactly as the same request without them, and every record a
  create request adds to the store has both coordinates empty. The data of the storage
  call has no coordinate key at all (\<open>post_create\<close>); when the first create call fails
  the controller makes the call once more with the same data, so it makes at most two
  calls, and only when the second fails too is the failure answered (500, nothing
  stored).
\<close>

theorem create_never_persists_coordinates:
  "addPost e d tokenUserId
      (filter (\<lambda>kv. fst kv \<noteq> ''latitude'' \<and> fst kv \<noteq> ''longitude'') req_body)
     = addPost e d tokenUserId req_body
   \<and> (\<exists>ps. posts (store (addPost e d tokenUserId req_body)) = posts d @ ps \<and> length ps \<le> 2
           \<and> list_all (\<lambda>p. latitude p = None \<and> longitude p = None) ps)
   \<and> length (calls (addPost e d tokenUserId req_body)) \<le> 2
   \<and> (\<forall>err. truthy (prop_of (JObj req_body) ''title'')
          \<and> truthy (prop_of (JObj req_body) ''price'')
          \<and> truthy (prop_of (JObj req_body) ''city'')
          \<and> post_create_call e 0 d (create_data tokenUserId (JObj req_body)) = Inl err \<longrightarrow>
          calls (addPost e d tokenUserId req_body)
            = [Create (create_data tokenUserId (JObj req_body)),
               Create (create_data tokenUserId (JObj req_body))]
          \<and> (\<forall>err2. post_create_call e 1 d (create_data tokenUserId (JObj req_body)) = Inl err2 \<longrightarrow>
                status (addPost e d tokenUserId req_body) = 500
                \<and> body (addPost e d tokenUserId req_body)
                    = Failure ''Failed to create post in database'' err2
                \<and> store (addPost e d tokenUserId req_body) = d)
          \<and> (\<forall>d' p a. post_create_call e 1 d (create_data tokenUserId (JObj req_body)) = Inr (d', p)
                \<and> find_user d tokenUserId = Some a \<longrightarrow>
                status (addPost e d tokenUserId req_body) = 201
                \<and> store (addPost e d tokenUserId req_body) = d'
                \<and> posts d' = posts d @ [p] \<and> latitude p = None \<and> longitude p = None))"
  using addPost_without_coordinates [of e d tokenUserId req_body]
        addPost_added [of e d tokenUserId req_body]
        addPost_calls_length [of e d tokenUserId req_body]
        addPost_retry [of req_body e d tokenUserId]
  by blast

text \<open>
  The spec's example with coordinates supplied, against a backend whose first call
  faults: one retry, 201, and the stored record has no coordinates; against an
  unreachable backend: 500 and nothing stored.
\<close>

theorem create_never_persists_coordinates_witness:
  "prop_of (JObj flat_request) ''latitude'' = JStr ''52.5''
   \<and> prop_of (JObj flat_request) ''longitude'' = JStr ''13.4''
   \<and> status (addPost first_call_faults demo_db ''u1'' flat_request) = 201
   \<and> calls (addPost first_call_faults demo_db ''u1'' flat_request)
       = [Create (create_data ''u1'' (JObj flat_request)),
          Create (create_data ''u1'' (JObj flat_request))]
   \<and> posts (store (addPost first_call_faults demo_db ''u1'' flat_request))
       = [flat_a, house_b, flat_stored]
   \<and> latitude flat_stored = None \<and> longitude flat_stored = None
   \<and> status (addPost unreachable demo_db ''u1'' flat_request) = 500
   \<and> store (addPost unreachable demo_db ''u1'' flat_request) = demo_db"
proof -
  let ?x = "create_data ''u1'' (JObj flat_request)"
  have f0: "post_create_call first_call_faults 0 demo_db ?x = Inl StorageFault"
    by (rule create_call_faults) (simp add: first_call_faults_def)
  have f1: "post_create_call first_call_faults 1 demo_db ?x
            = Inr (demo_db\<lparr> posts := posts demo_db @ [flat_stored] \<rparr>, flat_stored)"
    by (rule flat_create_call_any) (simp_all add: first_call_faults_def)
  have u0: "post_create_call unreachable 0 demo_db ?x = Inl StorageFault"
    by (rule create_call_faults) (simp add: unreachable_def)
  have u1: "post_create_call unreachable 1 demo_db ?x = Inl StorageFault"
    by (rule create_call_faults) (simp add: unreachable_def)
  have t: "truthy (prop_of (JObj flat_request) ''title'')"
      "truthy (prop_of (JObj flat_request) ''price'')"
      "truthy (prop_of (JObj flat_request) ''city'')"
    by (simp_all del: prop_of.simps)
  from create_never_persists_coordinates [of first_call_faults demo_db "''u1''" flat_request]
       t f0 f1
  have a: "status (addPost first_call_faults demo_db ''u1'' flat_request) = 201
     \<and> calls (addPost first_call_faults demo_db ''u1'' flat_request) = [Create ?x, Create ?x]
     \<and> store (addPost first_call_faults demo_db ''u1'' flat_request)
         = demo_db\<lparr> posts := posts demo_db @ [flat_stored] \<rparr>"
    by (simp del: prop_of.simps)
  from create_never_persists_coordinates [of unreachable demo_db "''u1''" flat_request]
       t u0 u1
  have b: "status (addPost unreachable demo_db ''u1'' flat_request) = 500
     \<and> store (addPost unreachable demo_db ''u1'' flat_request) = demo_db"
    by (simp del: prop_of.simps)
  have c: "prop_of (JObj flat_request) ''latitude'' = JStr ''52.5''
     \<and> prop_of (JObj flat_request) ''longitude'' = JStr ''13.4''"
    by (simp add: flat_request_def)
  from a b c show ?thesis by (simp add: demo_db_def flat_stored_def del: prop_of.simps)
qed

section \<open>Creating a Listing: required fields\<close>



section \<open>What a delete removes\<close>

text \<open>
  Claim C7. Deleting a Listing removes the Listing and its Listing Detail (the cascade
  the schema declares) and nothing else: no Conversation is modified, so a Conversation
  whose listing reference points at the deleted Listing keeps that reference, now
  dangling (\<open>on_delete_conversations\<close>, as the spec has it); Accounts and Messages are
  unchanged; the controller's only write is the one delete call; a delete that is not
  answered 200 changes nothing at all.
\<close>

theorem delete_cascades_to_detail_only:
  "conversations (store (deletePost e d i tokenUserId)) = conversations d
   \<and> users (store (deletePost e d i tokenUserId)) = users d
   \<and> messages (store (deletePost e d i tokenUserId)) = messages d
   \<and> (status (deletePost e d i tokenUserId) = 200 \<longrightarrow>
        posts (store (deletePost e d i tokenUserId)) = filter (\<lambda>y. post_id y \<noteq> i) (posts d)
        \<and> postDetails (store (deletePost e d i tokenUserId))
            = filter (\<lambda>x. postId x \<noteq> i) (postDetails d)
        \<and> find_post (store (deletePost e d i tokenUserId)) i = None
        \<and> find_detail (store (deletePost e d i tokenUserId)) i = None
        \<and> calls (deletePost e d i tokenUserId) = [FindUnique i, Delete i])
   \<and> (status (deletePost e d i tokenUserId) \<noteq> 200 \<longrightarrow>
        store (deletePost e d i tokenUserId) = d)"
  using delete_frame [of e d i tokenUserId] delete_effect [of e d i tokenUserId]
        delete_other [of e d i tokenUserId]
  by (simp add: find_post_def find_detail_def find_filter_self)

text \<open>
  The owner deletes \<open>p1\<close>: its Detail is gone, and the Conversation about it is still
  there, referring to a Listing that no longer exists.
\<close>

theorem delete_cascades_to_detail_only_witness:
  "status (deletePost reachable demo_db ''p1'' ''u1'') = 200
   \<and> posts (store (deletePost reachable demo_db ''p1'' ''u1'')) = [house_b]
   \<and> postDetails (store (deletePost reachable demo_db ''p1'' ''u1'')) = []
   \<and> conversations (store (deletePost reachable demo_db ''p1'' ''u1'')) = [chat]
   \<and> propertyId chat = Some ''p1''
   \<and> find_post (store (deletePost reachable demo_db ''p1'' ''u1'')) ''p1'' = None"
proof -
  have s: "status (deletePost reachable demo_db ''p1'' ''u1'') = 200"
    by (simp add: deletePost_def findUnique_def delete_def reachable_def flat_a_def)
  from delete_cascades_to_detail_only [of reachable demo_db "''p1''" "''u1''"] s
  show ?thesis
    by (simp add: demo_db_def flat_a_def house_b_def detail_a_def chat_def)
qed

section \<open>The owner info of a result\<close>

text \<open>
  Claim C8, as stated, at two requests where it fails. The claim: the owner info carries
  a display name that falls back to the handle, and a sentinel is substituted in every
  read or list result when no owning Account could be joined. The Account \<open>ann\<close> has
  the full name \<open>Ann Lee\<close>, and the list shows her Listing \<open>p1\<close> with the display
  name \<open>ann\<close>; the same in a read-one of \<open>p1\<close>. The owner of \<open>p2\<close> has no
  Account: the list shows \<open>p2\<close> with the sentinel, and a read-one of \<open>p2\<close> is
  answered 500 with a message and no Listing. The first is how every shaping of the
  controller is written (\<^verbatim>\<open>fullName: post.user.username\<close>; no query selects the
  Account's full name). The second is the read of \<^verbatim>\<open>post.user.id\<close> at line 363 with
  no test of \<^verbatim>\<open>post.user\<close>, where the list has one at line 83.
\<close>

theorem display_name_is_handle_and_read_one_has_no_sentinel:
  "find_post demo_db ''p1'' = Some flat_a
   \<and> find_user demo_db (userId flat_a) = Some ann
   \<and> fullName ann = Some ''Ann Lee''
   \<and> username ann = ''ann''
   \<and> map (\<lambda>l. (r_id (l_row l), oi_fullName (l_ownerInfo l)))
        (listings_of (getPosts reachable demo_db Map.empty))
       = [(''p2'', ''Unknown''), (''p1'', ''ann'')]
   \<and> body (getPost reachable demo_db ''p1'')
       = Shaped \<lparr> s_record = with_include demo_db flat_a,
                  s_ownerInfo = \<lparr> oi_id = ''u1'', oi_username = ''ann'',
                    oi_email = ''ann@example.org'', oi_fullName = ''ann'', oi_avatar = None,
                    verified = False, showContactInfo = True, memberSince = 5,
                    location = ''Berlin'', userType = ''standard'' \<rparr> \<rparr>
   \<and> find_post demo_db ''p2'' = Some house_b
   \<and> find_user demo_db (userId house_b) = None
   \<and> status (getPost reachable demo_db ''p2'') = 500
   \<and> body (getPost reachable demo_db ''p2'') = Message ''Failed to get post''"
  by code_simp

text \<open>
  Claim C8, amended. Every list result, and every read-one that is answered 200, carries
  an owner info. On the full path of a list it is the projection of the owning Account
  when the join finds one (identifier, handle, email, the handle again as display name,
  avatar, \<open>verified\<close> false, \<open>showContactInfo\<close> true, the Account's creation time as
  member-since, a location built from the Listing's city), and the "unknown user"
  sentinel when it finds none; on the fallback path, which joins nothing, it is the
  sentinel. A read-one of a Listing whose owner has an Account is answered 200, when the
  lookup does not fault, with the projection of that Account; and whenever a read-one is
  answered 200, its body is the Listing with an owner info, the projection of the owner's
  Account if there is one. An owner info is a value of a record type in each case: the
  field is never absent or null. What a read-one answers when the owner has no Account
  is no part of the statement.
\<close>

theorem owner_info_always_present:
  "(\<forall>rs. findMany e 0 d (Some (buildWhere q)) True = Inr rs \<longrightarrow>
      listings_of (getPosts e d q) = map (transform (now e)) rs
      \<and> list_all (\<lambda>l. l_ownerInfo l
             = (case find_user d (r_userId (l_row l)) of
                  Some a \<Rightarrow> owner_info (select_user a) (str_or (r_city (l_row l)) ''Unknown City'')
                | None \<Rightarrow> unknown_owner (now e) (str_or (r_city (l_row l)) ''Unknown City'')))
           (listings_of (getPosts e d q)))
   \<and> (\<forall>err. findMany e 0 d (Some (buildWhere q)) True = Inl err \<longrightarrow>
        list_all (\<lambda>l. l_ownerInfo l = unknown_owner (now e) (str_or (r_city (l_row l)) ''Unknown''))
          (listings_of (getPosts e d q)))
   \<and> (\<forall>p u. \<not> faults e 0 \<and> find_post d i = Some p \<and> find_user d (userId p) = Some u \<longrightarrow>
        status (getPost e d i) = 200
        \<and> body (getPost e d i)
            = Shaped \<lparr> s_record = with_include d p,
                       s_ownerInfo = owner_info (select_user u) (city p) \<rparr>)
   \<and> (status (getPost e d i) = 200 \<longrightarrow>
        (\<exists>p s. find_post d i = Some p \<and> body (getPost e d i) = Shaped s
           \<and> s_record s = with_include d p
           \<and> (\<forall>u. find_user d (userId p) = Some u \<longrightarrow>
                  s_ownerInfo s = owner_info (select_user u) (city p))))
   \<and> owner_info (select_user a) loc
       = \<lparr> oi_id = user_id a, oi_username = username a, oi_email = email a,
           oi_fullName = username a, oi_avatar = avatar a, verified = False,
           showContactInfo = True, memberSince = user_createdAt a, location = loc,
           userType = ''standard'' \<rparr>
   \<and> unknown_owner t loc
       = \<lparr> oi_id = ''unknown'', oi_username = ''Unknown User'', oi_email = [],
           oi_fullName = ''Unknown'', oi_avatar = Some [], verified = False,
           showContactInfo = False, memberSince = t, location = loc,
           userType = ''standard'' \<rparr>"
proof (intro conjI)
  show "\<forall>rs. findMany e 0 d (Some (buildWhere q)) True = Inr rs \<longrightarrow>
      listings_of (getPosts e d q) = map (transform (now e)) rs
      \<and> list_all (\<lambda>l. l_ownerInfo l
             = (case find_user d (r_userId (l_row l)) of
                  Some a \<Rightarrow> owner_info (select_user a) (str_or (r_city (l_row l)) ''Unknown City'')
                | None \<Rightarrow> unknown_owner (now e) (str_or (r_city (l_row l)) ''Unknown City'')))
           (listings_of (getPosts e d q))"
    using getPosts_full_owner [of e d q] by simp
  show "\<forall>err. findMany e 0 d (Some (buildWhere q)) True = Inl err \<longrightarrow>
        list_all (\<lambda>l. l_ownerInfo l = unknown_owner (now e) (str_or (r_city (l_row l)) ''Unknown''))
          (listings_of (getPosts e d q))"
    using getPosts_fallback_owner [of e d q] by simp
  show "\<forall>p u. \<not> faults e 0 \<and> find_post d i = Some p \<and> find_user d (userId p) = Some u \<longrightarrow>
        status (getPost e d i) = 200
        \<and> body (getPost e d i)
            = Shaped \<lparr> s_record = with_include d p,
                       s_ownerInfo = owner_info (select_user u) (city p) \<rparr>"
    using getPost_joined [of e d i] by blast
  show "status (getPost e d i) = 200 \<longrightarrow>
        (\<exists>p s. find_post d i = Some p \<and> body (getPost e d i) = Shaped s
           \<and> s_record s = with_include d p
           \<and> (\<forall>u. find_user d (userId p) = Some u \<longrightarrow>
                  s_ownerInfo s = owner_info (select_user u) (city p)))"
    using getPost_200 [of e d i] by fastforce
  show "owner_info (select_user a) loc
       = \<lparr> oi_id = user_id a, oi_username = username a, oi_email = email a,
           oi_fullName = username a, oi_avatar = avatar a, verified = False,
           showContactInfo = True, memberSince = user_createdAt a, location = loc,
           userType = ''standard'' \<rparr>"
    by (simp add: owner_info_def select_user_def)
  show "unknown_owner t loc
       = \<lparr> oi_id = ''unknown'', oi_username = ''Unknown User'', oi_email = [],
           oi_fullName = ''Unknown'', oi_avatar = Some [], verified = False,
           showContactInfo = False, memberSince = t, location = loc,
           userType = ''standard'' \<rparr>"
    by (simp add: unknown_owner_def)
qed

text \<open>
  On the small store: \<open>p1\<close> is listed with its owner \<open>ann\<close>, \<open>p2\<close> (whose owner
  has no Account) with the sentinel; on the fallback path both carry the sentinel; and
  reading \<open>p1\<close> is answered 200 with the projection of \<open>ann\<close>.
\<close>

theorem owner_info_always_present_witness:
  "map (\<lambda>l. oi_username (l_ownerInfo l)) (listings_of (getPosts reachable demo_db Map.empty))
     = [''Unknown User'', ''ann'']
   \<and> list_all (\<lambda>l. l_ownerInfo l
             = (case find_user demo_db (r_userId (l_row l)) of
                  Some a \<Rightarrow> owner_info (select_user a) (str_or (r_city (l_row l)) ''Unknown City'')
                | None \<Rightarrow> unknown_owner (now reachable) (str_or (r_city (l_row l)) ''Unknown City'')))
        (listings_of (getPosts reachable demo_db Map.empty))
   \<and> list_all (\<lambda>l. l_ownerInfo l = unknown_owner (now first_call_faults) (str_or (r_city (l_row l)) ''Unknown''))
        (listings_of (getPosts first_call_faults demo_db Map.empty))
   \<and> map (\<lambda>l. r_id (l_row l)) (listings_of (getPosts first_call_faults demo_db Map.empty))
       = [''p2'', ''p1'']
   \<and> status (getPost reachable demo_db ''p1'') = 200
   \<and> body (getPost reachable demo_db ''p1'')
       = Shaped \<lparr> s_record = with_include demo_db flat_a,
                  s_ownerInfo = owner_info (select_user ann) (city flat_a) \<rparr>
   \<and> (\<exists>s. body (getPost reachable demo_db ''p1'') = Shaped s
         \<and> s_record s = with_include demo_db flat_a
         \<and> s_ownerInfo s = owner_info (select_user ann) (city flat_a))"
proof -
  have full: "findMany reachable 0 demo_db (Some (buildWhere Map.empty)) True
              = Inr (rows demo_db True (posts demo_db))"
    by (simp add: findMany_def reachable_def matches_empty)
       (simp add: valid_where_def buildWhere_def given_def opt_holds_def)
  have fb: "findMany first_call_faults 0 demo_db (Some (buildWhere Map.empty)) True
            = Inl StorageFault"
    by (simp add: findMany_def first_call_faults_def)
  have names: "map (\<lambda>l. oi_username (l_ownerInfo l))
                 (listings_of (getPosts reachable demo_db Map.empty)) = [''Unknown User'', ''ann'']"
    by code_simp
  have ids: "map (\<lambda>l. r_id (l_row l)) (listings_of (getPosts first_call_faults demo_db Map.empty))
             = [''p2'', ''p1'']"
    by code_simp
  have own: "\<not> faults reachable 0" "find_post demo_db ''p1'' = Some flat_a"
      "find_user demo_db (userId flat_a) = Some ann"
    by code_simp+
  note full_path = owner_info_always_present
      [where e = reachable and d = demo_db and q = Map.empty, THEN conjunct1, rule_format,
       OF full, THEN conjunct2]
  note fallback = owner_info_always_present
      [where e = first_call_faults and d = demo_db and q = Map.empty, THEN conjunct2,
       THEN conjunct1, rule_format, OF fb]
  note read_one = owner_info_always_present
      [where e = reachable and d = demo_db and i = "''p1''", THEN conjunct2, THEN conjunct2]
  from read_one [THEN conjunct1] own
  have c: "status (getPost reachable demo_db ''p1'') = 200
           \<and> body (getPost reachable demo_db ''p1'')
               = Shaped \<lparr> s_record = with_include demo_db flat_a,
                          s_ownerInfo = owner_info (select_user ann) (city flat_a) \<rparr>"
    by blast
  from c read_one [THEN conjunct2, THEN conjunct1] obtain p s where
      ps: "find_post demo_db ''p1'' = Some p" "body (getPost reachable demo_db ''p1'') = Shaped s"
        "s_record s = with_include demo_db p"
        "\<forall>u. find_user demo_db (userId p) = Some u \<longrightarrow>
            s_ownerInfo s = owner_info (select_user u) (city p)"
    by blast
  from ps(1) own(2) have "p = flat_a" by simp
  with ps own(3)
  have e: "\<exists>s. body (getPost reachable demo_db ''p1'') = Shaped s
         \<and> s_record s = with_include demo_db flat_a
         \<and> s_ownerInfo s = owner_info (select_user ann) (city flat_a)"
    by blast
  from names full_path fallback ids c e show ?thesis by (intro conjI) simp_all
qed

section \<open>Coordinates in a list response\<close>

text \<open>
  Claim C9. Every Listing the list operation returns, on the full path and on the
  fallback path, has latitude and longitude null, whatever the record holds; and the
  update operation hands the client's latitude and longitude to the storage call as
  they are, so that after a successful update with string coordinates the record holds
  them, and a list of that store still returns null for both.
\<close>

theorem list_coordinates_always_null:
  "list_all (\<lambda>l. l_latitude l = None \<and> l_longitude l = None) (listings_of (getPosts e d q))
   \<and> pu_latitude (update_data (JObj req_body)) = prop_of (JObj req_body) ''latitude''
   \<and> pu_longitude (update_data (JObj req_body)) = prop_of (JObj req_body) ''longitude''
   \<and> (status (updatePost e d i tokenUserId req_body) = 200 \<longrightarrow>
        (\<forall>s. prop_of (JObj req_body) ''latitude'' = JStr s \<longrightarrow>
           (\<exists>p. find_post (store (updatePost e d i tokenUserId req_body)) i = Some p
                \<and> latitude p = Some s))
        \<and> (\<forall>s. prop_of (JObj req_body) ''longitude'' = JStr s \<longrightarrow>
           (\<exists>p. find_post (store (updatePost e d i tokenUserId req_body)) i = Some p
                \<and> longitude p = Some s))
        \<and> list_all (\<lambda>l. l_latitude l = None \<and> l_longitude l = None)
            (listings_of (getPosts e' (store (updatePost e d i tokenUserId req_body)) q)))"
proof (intro conjI impI allI)
  show "list_all (\<lambda>l. l_latitude l = None \<and> l_longitude l = None) (listings_of (getPosts e d q))"
    by (rule getPosts_coordinates)
  show "pu_latitude (update_data (JObj req_body)) = prop_of (JObj req_body) ''latitude''"
    and "pu_longitude (update_data (JObj req_body)) = prop_of (JObj req_body) ''longitude''"
    by (simp_all add: update_data_def)
next
  assume ok: "status (updatePost e d i tokenUserId req_body) = 200"
  show "list_all (\<lambda>l. l_latitude l = None \<and> l_longitude l = None)
            (listings_of (getPosts e' (store (updatePost e d i tokenUserId req_body)) q))"
    by (rule getPosts_coordinates)
  from updatePost_200 [OF ok] obtain p p' where
    w: "write_post e (update_data (JObj req_body)) p = Some p'"
    and f: "find_post (store (updatePost e d i tokenUserId req_body)) i = Some p'"
    by blast
  { fix s assume "prop_of (JObj req_body) ''latitude'' = JStr s"
    with write_post_Some(12) [OF w] have "latitude p' = Some s"
      by (simp add: update_data_def optional_string del: prop_of.simps)
    with f show "\<exists>p. find_post (store (updatePost e d i tokenUserId req_body)) i = Some p
                \<and> latitude p = Some s" by blast }
  { fix s assume "prop_of (JObj req_body) ''longitude'' = JStr s"
    with write_post_Some(13) [OF w] have "longitude p' = Some s"
      by (simp add: update_data_def optional_string del: prop_of.simps)
    with f show "\<exists>p. find_post (store (updatePost e d i tokenUserId req_body)) i = Some p
                \<and> longitude p = Some s" by blast }
qed

text \<open>
  The Listing \<open>p1\<close> has coordinates and is listed without them; its owner moves it, the
  record holds the new coordinates, and the list (here on the fallback path) still
  returns none.
\<close>

theorem list_coordinates_always_null_witness:
  "latitude flat_a = Some ''52.5''
   \<and> map (\<lambda>l. r_id (l_row l)) (listings_of (getPosts reachable demo_db Map.empty)) = [''p2'', ''p1'']
   \<and> list_all (\<lambda>l. l_latitude l = None \<and> l_longitude l = None)
        (listings_of (getPosts reachable demo_db Map.empty))
   \<and> status (updatePost reachable demo_db ''p1'' ''u1'' move_request) = 200
   \<and> (\<exists>p. find_post (store (updatePost reachable demo_db ''p1'' ''u1'' move_request)) ''p1'' = Some p
          \<and> latitude p = Some ''48.1'')
   \<and> (\<exists>p. find_post (store (updatePost reachable demo_db ''p1'' ''u1'' move_request)) ''p1'' = Some p
          \<and> longitude p = Some ''11.5'')
   \<and> list_all (\<lambda>l. l_latitude l = None \<and> l_longitude l = None)
        (listings_of (getPosts first_call_faults
           (store (updatePost reachable demo_db ''p1'' ''u1'' move_request)) Map.empty))"
proof -
  have ok: "status (updatePost reachable demo_db ''p1'' ''u1'' move_request) = 200"
    by code_simp
  have la: "prop_of (JObj move_request) ''latitude'' = JStr ''48.1''"
    and lo: "prop_of (JObj move_request) ''longitude'' = JStr ''11.5''"
    by (simp_all add: move_request_def)
  have ids: "map (\<lambda>l. r_id (l_row l)) (listings_of (getPosts reachable demo_db Map.empty))
             = [''p2'', ''p1'']"
    by code_simp
  from list_coordinates_always_null
         [of reachable demo_db Map.empty move_request "''p1''" "''u1''" first_call_faults]
       ok la lo ids
  show ?thesis by (simp add: flat_a_def del: prop_of.simps)
qed

section \<open>The required fields of a create request\<close>

text \<open>
  Claim C10. The required-field check of the create operation is a truthiness test: a
  request whose price is the number 0, or whose title or city is the empty string, is
  answered 400 "Missing required fields" although the field is present; nothing is
  stored and no storage call is made.
\<close>

theorem create_rejects_falsy_required:
  assumes "prop_of (JObj req_body) ''price'' = JNum (Fin 0)
           \<or> prop_of (JObj req_body) ''title'' = JStr []
           \<or> prop_of (JObj req_body) ''city'' = JStr []"
  shows "status (addPost e d tokenUserId req_body) = 400
         \<and> body (addPost e d tokenUserId req_body) = Message ''Missing required fields''
         \<and> store (addPost e d tokenUserId req_body) = d
         \<and> calls (addPost e d tokenUserId req_body) = []"
  using assms by (auto simp: addPost_def)

text \<open>A request for a flat in Berlin at price 0: the price key is there, the answer is 400.\<close>

theorem create_rejects_falsy_required_witness:
  "map_of [(''title'', JStr ''Flat A''), (''price'', JNum (Fin 0)), (''city'', JStr ''Berlin'')]
      ''price'' = Some (JNum (Fin 0))
   \<and> status (addPost reachable demo_db ''u1''
        [(''title'', JStr ''Flat A''), (''price'', JNum (Fin 0)), (''city'', JStr ''Berlin'')])
       = 400
   \<and> body (addPost reachable demo_db ''u1''
        [(''title'', JStr ''Flat A''), (''price'', JNum (Fin 0)), (''city'', JStr ''Berlin'')])
       = Message ''Missing required fields''
   \<and> store (addPost reachable demo_db ''u1''
        [(''title'', JStr ''Flat A''), (''price'', JNum (Fin 0)), (''city'', JStr ''Berlin'')])
       = demo_db"
proof -
  have h: "prop_of (JObj [(''title'', JStr ''Flat A''), (''price'', JNum (Fin 0)),
                          (''city'', JStr ''Berlin'')]) ''price'' = JNum (Fin 0)"
    by simp
  from create_rejects_falsy_required [of _ reachable demo_db "''u1''"] h
  show ?thesis by simp
qed

end
